theory Spec2Isabelle
  imports Complex_Main
begin

section \<open>The emotion-detection hook: data model\<close>

text \<open>
  The development embeds \<^verbatim>\<open>useEmotionDetection.tsx\<close>. The hook's React state
  variables and refs are the fields of one record, which every operation takes and
  returns. What the browser holds on the hook's behalf (pending timers, live media
  streams, the notifications shown) is part of the same record.

  The hook's functions are closures of a render: a function that reads a state variable
  (\<^verbatim>\<open>isAnalyzing\<close>, \<^verbatim>\<open>isProcessing\<close>, \<^verbatim>\<open>micPermission\<close>, \<^verbatim>\<open>currentEmotion\<close>)
  reads the value its render captured, not the live one, while refs, the browser's state
  and the functional updaters are live. The captured values are an argument of each such
  function, a \<open>render\<close>; the callback of a timer carries the render of the
  \<open>startAnalysis\<close> call that registered it. A setter takes effect at once.

  An \<^verbatim>\<open>async\<close> operation is cut at its \<^verbatim>\<open>await\<close>s into pieces that run without
  interruption; what the outside world answers (the time, a random draw, a stream or a
  denial, the classifier's result or failure) is an argument of the piece that reads it.
  Numbers are reals and integers, not floating-point values. Console output is not part
  of the state, and drawing the frame and encoding it are taken not to throw.
\<close>

type_synonym media_stream = nat
type_synonym timer_handle = nat

record classification_event =
  emotion :: string
  timestamp :: int
  score :: real

datatype toast = ToastSuccess string | ToastError string | ToastInfo string

text \<open>The state variables that the closures of one render read.\<close>

record render =
  renderAnalyzing :: bool
  renderProcessing :: bool
  renderMicPermission :: "bool option"
  renderCurrentEmotion :: "string option"

text \<open>The callbacks the hook registers with \<^verbatim>\<open>setTimeout\<close> and \<^verbatim>\<open>setInterval\<close>;
  the two that capture call \<open>processVideoFrame\<close> of the render they carry.\<close>

datatype timer_task = PopupHide | FirstCapture render | TickInterval render

record hook_state =
  cameraPermission :: "bool option"
  micPermission :: "bool option"
  isAnalyzing :: bool
  currentEmotion :: "string option"
  emotionHistory :: "classification_event list"
  showInfo :: bool
  stressLevel :: int
  engagementLevel :: int
  focusLevel :: int
  lastDetectionTime :: int
  showEmotionPopup :: bool
  popupEmotion :: "string option"
  timerCount :: int
  isProcessing :: bool
  timerIntervalRef :: "timer_handle option"
  videoRef :: "media_stream option option"
  canvasRef :: "bool option"
  mediaStreamRef :: "media_stream option"
  popupTimeoutRef :: "timer_handle option"
  lastApiCallTimeRef :: int
  abortControllerRef :: "bool option"
  toasts :: "toast list"
  timers :: "(timer_handle \<times> timer_task \<times> int) list"
  nextHandle :: timer_handle
  activeStreams :: "media_stream list"

text \<open>
  \<^item> \<open>videoRef\<close>: \<open>None\<close> is a null ref, \<open>Some src\<close> a mounted video element whose
    \<^verbatim>\<open>srcObject\<close> is \<open>src\<close>.
  \<^item> \<open>canvasRef\<close>: \<open>None\<close> is a null ref, \<open>Some ok\<close> a mounted canvas whose
    \<^verbatim>\<open>getContext('2d')\<close> gives a context exactly when \<open>ok\<close>.
  \<^item> \<open>abortControllerRef\<close>: \<open>Some aborted\<close> is a controller and its aborted flag.
  \<^item> \<open>timers\<close>: the browser's pending timers, each with its handle, its callback and
    the time (ms) at which it is due; \<open>nextHandle\<close> is the next handle it gives out.
  \<^item> \<open>activeStreams\<close>: the media streams whose tracks have not been stopped.
\<close>

text \<open>The render of a state: what closures created from it capture.\<close>

definition render_of :: "hook_state \<Rightarrow> render" where
  "render_of s = \<lparr>renderAnalyzing = isAnalyzing s, renderProcessing = isProcessing s,
                  renderMicPermission = micPermission s,
                  renderCurrentEmotion = currentEmotion s\<rparr>"

definition initial_state :: hook_state where
  "initial_state = \<lparr>
     cameraPermission = None, micPermission = None, isAnalyzing = False,
     currentEmotion = None, emotionHistory = [], showInfo = False,
     stressLevel = 0, engagementLevel = 0, focusLevel = 0, lastDetectionTime = 0,
     showEmotionPopup = False, popupEmotion = None, timerCount = 3,
     isProcessing = False, timerIntervalRef = None, videoRef = Some None,
     canvasRef = Some True, mediaStreamRef = None, popupTimeoutRef = None,
     lastApiCallTimeRef = 0, abortControllerRef = None, toasts = [], timers = [],
     nextHandle = 1, activeStreams = [] \<rparr>"

subsection \<open>Random draws\<close>

text \<open>\<^verbatim>\<open>Math.random()\<close> returns a number \<open>r\<close> with \<open>0 \<le> r < 1\<close>.\<close>

typedef math_random = "{r::real. 0 \<le> r \<and> r < 1}"
  by (rule exI[of _ 0]) simp

setup_lifting type_definition_math_random

lift_definition random_of :: "real \<Rightarrow> math_random" is
  "\<lambda>x. if 0 \<le> x \<and> x < 1 then x else 0"
  by simp

text \<open>\<^verbatim>\<open>Math.floor(Math.random() * n)\<close>\<close>

definition random_floor :: "math_random \<Rightarrow> int \<Rightarrow> int" where
  "random_floor r n = \<lfloor>Rep_math_random r * of_int n\<rfloor>"

section \<open>Metric mapper\<close>

definition updateMetricsBasedOnEmotion ::
  "string \<Rightarrow> math_random \<Rightarrow> math_random \<Rightarrow> math_random \<Rightarrow> hook_state \<Rightarrow> hook_state" where
  "updateMetricsBasedOnEmotion e r1 r2 r3 s = s\<lparr>
     stressLevel :=
       (if e = ''stressed'' then 75 + random_floor r1 25
        else if e = ''confused'' then 50 + random_floor r1 25
        else if e = ''sad'' then 60 + random_floor r1 20
        else if e = ''neutral'' then 20 + random_floor r1 20
        else if e = ''focused'' then 10 + random_floor r1 15
        else if e = ''happy'' then 5 + random_floor r1 10
        else 15 + random_floor r1 20),
     engagementLevel :=
       (if e = ''focused'' \<or> e = ''happy'' then 80 + random_floor r2 20
        else if e = ''neutral'' then 50 + random_floor r2 30
        else if e = ''sad'' then 20 + random_floor r2 30
        else if e = ''stressed'' then 15 + random_floor r2 25
        else 30 + random_floor r2 40),
     focusLevel :=
       (if e = ''focused'' then 85 + random_floor r3 15
        else if e = ''happy'' then 70 + random_floor r3 20
        else if e = ''neutral'' then 50 + random_floor r3 20
        else if e = ''stressed'' then 15 + random_floor r3 20
        else if e = ''sad'' then 20 + random_floor r3 20
        else 30 + random_floor r3 30) \<rparr>"

section \<open>History aggregator\<close>

text \<open>\<^verbatim>\<open>xs.slice(-n)\<close>: the last \<open>n\<close> elements, all of them when there are fewer.\<close>

definition slice_last :: "nat \<Rightarrow> 'a list \<Rightarrow> 'a list" where
  "slice_last n xs = drop (length xs - n) xs"

text \<open>The updater \<^verbatim>\<open>prev => [...prev, ev].slice(-12)\<close> of all three recording paths.\<close>

definition appendHistory ::
  "classification_event \<Rightarrow> classification_event list \<Rightarrow> classification_event list" where
  "appendHistory ev prev = slice_last 12 (prev @ [ev])"

section \<open>Browser timers and the support popup\<close>

text \<open>\<^verbatim>\<open>clearTimeout\<close> and \<^verbatim>\<open>clearInterval\<close> (one pool of handles).\<close>

definition clearTimer :: "timer_handle \<Rightarrow> hook_state \<Rightarrow> hook_state" where
  "clearTimer h s = s\<lparr>timers := filter (\<lambda>(h', task, due). h' \<noteq> h) (timers s)\<rparr>"

text \<open>\<^verbatim>\<open>setTimeout\<close> and \<^verbatim>\<open>setInterval\<close>: the handle returned is \<open>nextHandle s\<close>.\<close>

definition setTimer :: "timer_task \<Rightarrow> int \<Rightarrow> hook_state \<Rightarrow> hook_state" where
  "setTimer task due s =
     s\<lparr>timers := timers s @ [(nextHandle s, task, due)], nextHandle := nextHandle s + 1\<rparr>"

definition showEmotionalSupportPopup :: "string \<Rightarrow> int \<Rightarrow> hook_state \<Rightarrow> hook_state" where
  "showEmotionalSupportPopup e now s =
     (let s1 = (case popupTimeoutRef s of None \<Rightarrow> s | Some h \<Rightarrow> clearTimer h s);
          s2 = s1\<lparr>popupEmotion := Some e, showEmotionPopup := True\<rparr>
      in (setTimer PopupHide (now + 8000) s2)\<lparr>popupTimeoutRef := Some (nextHandle s2)\<rparr>)"

text \<open>The callback given to \<^verbatim>\<open>setTimeout\<close> by \<open>showEmotionalSupportPopup\<close>.\<close>

definition popupTimeoutCallback :: "hook_state \<Rightarrow> hook_state" where
  "popupTimeoutCallback s = s\<lparr>showEmotionPopup := False, popupTimeoutRef := None\<rparr>"

text \<open>Timer \<open>h\<close> with callback \<open>task\<close> is pending and due at time \<open>now\<close>.\<close>

definition timerDue :: "timer_handle \<Rightarrow> timer_task \<Rightarrow> int \<Rightarrow> hook_state \<Rightarrow> bool" where
  "timerDue h task now s =
     list_ex (\<lambda>(h', task', due). h' = h \<and> task' = task \<and> due \<le> now) (timers s)"

text \<open>
  The browser runs the popup's timeout \<open>h\<close> at time \<open>now\<close>: possible only when that
  timer is pending and due; the timer is spent and its callback runs.
\<close>

definition firePopupTimeout :: "timer_handle \<Rightarrow> int \<Rightarrow> hook_state \<Rightarrow> hook_state option" where
  "firePopupTimeout h now s =
     (if timerDue h PopupHide now s then Some (popupTimeoutCallback (clearTimer h s))
      else None)"

section \<open>Fallback generator and forced update\<close>

record random_draws =
  pickDraw :: math_random
  scoreDraw :: math_random
  stressDraw :: math_random
  engagementDraw :: math_random
  focusDraw :: math_random

text \<open>\<^verbatim>\<open>xs[Math.floor(Math.random() * xs.length)]\<close>\<close>

definition random_pick :: "math_random \<Rightarrow> string list \<Rightarrow> string" where
  "random_pick r xs = xs ! nat (random_floor r (int (length xs)))"

text \<open>\<^verbatim>\<open>0.7 + Math.random() * 0.3\<close>\<close>

definition random_score :: "math_random \<Rightarrow> real" where
  "random_score r = 0.7 + Rep_math_random r * 0.3"

text \<open>The labels of \<open>forceEmotionUpdate\<close>, and those of the \<^verbatim>\<open>catch\<close> block of
  \<open>processVideoFrame\<close>.\<close>

definition forceDummyEmotions :: "string list" where
  "forceDummyEmotions =
     [''happy'', ''focused'', ''neutral'', ''confused'', ''sad'', ''stressed'', ''bored'']"

definition catchDummyEmotions :: "string list" where
  "catchDummyEmotions = [''happy'', ''focused'', ''neutral'', ''confused'', ''sad'', ''stressed'']"

definition forceEmotionUpdate ::
  "render \<Rightarrow> int \<Rightarrow> random_draws \<Rightarrow> hook_state \<Rightarrow> hook_state" where
  "forceEmotionUpdate r tnow d s =
     (if \<not> renderAnalyzing r then s
      else
        let randomEmotion = random_pick (pickDraw d) forceDummyEmotions;
            s1 = s\<lparr>currentEmotion := Some randomEmotion\<rparr>;
            s2 = s1\<lparr>emotionHistory :=
                   appendHistory \<lparr>emotion = randomEmotion, timestamp = tnow,
                                  score = random_score (scoreDraw d)\<rparr> (emotionHistory s1)\<rparr>
        in updateMetricsBasedOnEmotion randomEmotion
             (stressDraw d) (engagementDraw d) (focusDraw d) s2)"

section \<open>Capture sampler and inference adapter\<close>

text \<open>What \<^verbatim>\<open>detectEmotionWithFacePlusPlus\<close> does: it resolves with a label and a
  confidence, or it rejects.\<close>

datatype classifier_result = ApiResolved string real | ApiRejected

text \<open>How the synchronous part of \<open>processVideoFrame\<close> ends: it returns, or it waits
  for the classifier.\<close>

datatype frame_status = Returned | Awaiting

text \<open>How the promise of an \<^verbatim>\<open>async\<close> call settles.\<close>

datatype settlement = Fulfilled | Rejected

text \<open>The \<^verbatim>\<open>finally\<close> block.\<close>

definition processVideoFrame_finally :: "hook_state \<Rightarrow> hook_state" where
  "processVideoFrame_finally s = s\<lparr>isProcessing := False, abortControllerRef := None\<rparr>"

text \<open>From the call to the \<^verbatim>\<open>await\<close>; \<open>now\<close> is \<^verbatim>\<open>Date.now()\<close>.\<close>

definition processVideoFrame_begin ::
  "render \<Rightarrow> int \<Rightarrow> hook_state \<Rightarrow> hook_state \<times> frame_status" where
  "processVideoFrame_begin r now s =
     (if videoRef s = None \<or> canvasRef s = None \<or> \<not> renderAnalyzing r \<or> renderProcessing r
      then (s, Returned)
      else if now - lastApiCallTimeRef s < 1000 then (s, Returned)
      else
        let s1 = s\<lparr>isProcessing := True\<rparr>;
            s2 = s1\<lparr>abortControllerRef := map_option (\<lambda>aborted. True) (abortControllerRef s1)\<rparr>;
            s3 = s2\<lparr>abortControllerRef := Some False\<rparr>
        in if canvasRef s3 = Some False then (processVideoFrame_finally s3, Returned)
           else (s3\<lparr>lastDetectionTime := now, lastApiCallTimeRef := now, timerCount := 3\<rparr>,
                 Awaiting))"

text \<open>From the settled classifier call to the end; \<open>tnow\<close> is the time then.\<close>

definition processVideoFrame_resume ::
  "classifier_result \<Rightarrow> int \<Rightarrow> random_draws \<Rightarrow> hook_state \<Rightarrow> hook_state" where
  "processVideoFrame_resume res tnow d s =
     processVideoFrame_finally
       (case res of
          ApiResolved e c \<Rightarrow>
            let s1 = s\<lparr>currentEmotion := Some e\<rparr>;
                s2 = s1\<lparr>emotionHistory :=
                       appendHistory \<lparr>emotion = e, timestamp = tnow, score = c\<rparr>
                         (emotionHistory s1)\<rparr>;
                s3 = updateMetricsBasedOnEmotion e
                       (stressDraw d) (engagementDraw d) (focusDraw d) s2;
                s4 = (if e = ''stressed'' \<or> e = ''sad''
                      then showEmotionalSupportPopup e tnow s3 else s3)
            in s4\<lparr>toasts := toasts s4 @ [ToastSuccess (''Emotion detected: '' @ e)]\<rparr>
        | ApiRejected \<Rightarrow>
            let s0 = s\<lparr>toasts := toasts s @
                       [ToastError ''Error analyzing emotion. Using simulated data.'']\<rparr>;
                randomEmotion = random_pick (pickDraw d) catchDummyEmotions;
                s1 = s0\<lparr>currentEmotion := Some randomEmotion\<rparr>;
                s2 = s1\<lparr>emotionHistory :=
                       appendHistory \<lparr>emotion = randomEmotion, timestamp = tnow,
                                      score = random_score (scoreDraw d)\<rparr> (emotionHistory s1)\<rparr>
            in updateMetricsBasedOnEmotion randomEmotion
                 (stressDraw d) (engagementDraw d) (focusDraw d) s2)"

text \<open>
  A whole call with nothing else running while it waits. Every path of the source ends
  in a return or in the \<^verbatim>\<open>catch\<close> block, so the promise is always fulfilled.
\<close>

definition processVideoFrame ::
  "render \<Rightarrow> int \<Rightarrow> classifier_result \<Rightarrow> int \<Rightarrow> random_draws \<Rightarrow> hook_state \<Rightarrow>
   hook_state \<times> settlement" where
  "processVideoFrame r now res tnow d s =
     (case processVideoFrame_begin r now s of
        (s', Returned) \<Rightarrow> (s', Fulfilled)
      | (s', Awaiting) \<Rightarrow> (processVideoFrame_resume res tnow d s', Fulfilled))"

text \<open>\<^verbatim>\<open>processVideoFrame().catch(() => forceEmotionUpdate())\<close>\<close>

definition processVideoFrame_caught ::
  "render \<Rightarrow> int \<Rightarrow> classifier_result \<Rightarrow> int \<Rightarrow> random_draws \<Rightarrow> hook_state \<Rightarrow> hook_state" where
  "processVideoFrame_caught r now res tnow d s =
     (case processVideoFrame r now res tnow d s of
        (s', Fulfilled) \<Rightarrow> s'
      | (s', Rejected) \<Rightarrow> forceEmotionUpdate r tnow d s')"

section \<open>Permission acquisition\<close>

text \<open>What \<^verbatim>\<open>getUserMedia\<close> does: it resolves with a stream, or it rejects.\<close>

datatype media_result = Granted media_stream | Denied

text \<open>Stop every track of the held stream and null the ref; reset the video element.\<close>

definition releaseStream :: "hook_state \<Rightarrow> hook_state" where
  "releaseStream s =
     (case mediaStreamRef s of
        None \<Rightarrow> s
      | Some st \<Rightarrow> s\<lparr>activeStreams := removeAll st (activeStreams s), mediaStreamRef := None\<rparr>)"

definition resetVideo :: "hook_state \<Rightarrow> hook_state" where
  "resetVideo s = s\<lparr>videoRef := map_option (\<lambda>src. None) (videoRef s)\<rparr>"

text \<open>\<open>requestCameraPermission\<close> up to its \<^verbatim>\<open>await\<close> of \<^verbatim>\<open>getUserMedia\<close>.\<close>

definition requestCameraPermission_begin :: "hook_state \<Rightarrow> hook_state" where
  "requestCameraPermission_begin s = resetVideo (releaseStream s)"

text \<open>\<open>requestCameraPermission\<close> from the answer of \<^verbatim>\<open>getUserMedia\<close> on; a granted
  stream is live from then.\<close>

definition requestCameraPermission_settle ::
  "media_result \<Rightarrow> hook_state \<Rightarrow> bool \<times> hook_state" where
  "requestCameraPermission_settle res s =
     (case res of
        Granted st \<Rightarrow>
          (True, s\<lparr>cameraPermission := Some True, mediaStreamRef := Some st,
                   activeStreams := st # activeStreams s,
                   videoRef := map_option (\<lambda>src. Some st) (videoRef s)\<rparr>)
      | Denied \<Rightarrow>
          (False, s\<lparr>cameraPermission := Some False,
                    toasts := toasts s @ [ToastError
                      ''Camera access denied. Please enable camera permissions and try again.'']\<rparr>))"

text \<open>A whole call with nothing else running while it waits.\<close>

definition requestCameraPermission :: "media_result \<Rightarrow> hook_state \<Rightarrow> bool \<times> hook_state" where
  "requestCameraPermission res s =
     requestCameraPermission_settle res (requestCameraPermission_begin s)"

text \<open>The microphone stream is held by nothing and is never stopped.\<close>

definition requestMicPermission :: "media_result \<Rightarrow> hook_state \<Rightarrow> bool \<times> hook_state" where
  "requestMicPermission res s =
     (case res of
        Granted st \<Rightarrow>
          (True, s\<lparr>micPermission := Some True, activeStreams := st # activeStreams s\<rparr>)
      | Denied \<Rightarrow>
          (False, s\<lparr>micPermission := Some False,
                    toasts := toasts s @ [ToastError
                      ''Microphone access denied. Please enable microphone permissions and try again.'']\<rparr>))"

section \<open>Session controller\<close>

text \<open>\<^verbatim>\<open>!currentEmotion\<close>: true of \<^verbatim>\<open>null\<close> and of the empty string.\<close>

definition falsyEmotion :: "string option \<Rightarrow> bool" where
  "falsyEmotion ce = (case ce of None \<Rightarrow> True | Some e \<Rightarrow> e = [])"

text \<open>The start of \<open>startAnalysis\<close>, before it asks for the camera.\<close>

definition startAnalysis_release :: "hook_state \<Rightarrow> hook_state" where
  "startAnalysis_release s = resetVideo (releaseStream s)"

text \<open>
  The rest of \<open>startAnalysis\<close>, once both permissions are settled. \<open>r\<close> is the render of
  the call: its \<open>currentEmotion\<close> decides the seed, and the two timers are given closures
  of \<open>r\<close>. \<open>now\<close> is the time.
\<close>

definition startAnalysis_proceed ::
  "bool \<Rightarrow> bool \<Rightarrow> render \<Rightarrow> int \<Rightarrow> random_draws \<Rightarrow> hook_state \<Rightarrow> hook_state" where
  "startAnalysis_proceed hasCamera hasMic r now d s =
     (if hasCamera \<and> hasMic then
        let s1 = s\<lparr>isAnalyzing := True,
                   toasts := toasts s @ [ToastSuccess ''Emotion detection started'']\<rparr>;
            s2 = (if falsyEmotion (renderCurrentEmotion r)
                  then updateMetricsBasedOnEmotion ''neutral''
                         (stressDraw d) (engagementDraw d) (focusDraw d)
                         (s1\<lparr>currentEmotion := Some ''neutral'',
                             emotionHistory :=
                               [\<lparr>emotion = ''neutral'', timestamp = now, score = 0.8\<rparr>]\<rparr>)
                  else s1);
            s3 = setTimer (FirstCapture r) (now + 1000) s2
        in if timerIntervalRef s3 = None
           then (setTimer (TickInterval r) (now + 1000) s3)
                  \<lparr>timerIntervalRef := Some (nextHandle s3)\<rparr>
           else s3
      else s\<lparr>toasts := toasts s @ [ToastError
             ''Both camera and microphone access are required for emotion detection'']\<rparr>)"

text \<open>A whole call, of render \<open>r\<close>, with nothing else running while it waits.\<close>

definition startAnalysis ::
  "render \<Rightarrow> media_result \<Rightarrow> media_result \<Rightarrow> int \<Rightarrow> random_draws \<Rightarrow> hook_state \<Rightarrow> hook_state" where
  "startAnalysis r cam mic now d s =
     (let (hasCamera, s1) = requestCameraPermission cam (startAnalysis_release s);
          (hasMic, s2) = (if renderMicPermission r = Some True then (True, s1)
                          else requestMicPermission mic s1)
      in startAnalysis_proceed hasCamera hasMic r now d s2)"

definition stopAnalysis :: "hook_state \<Rightarrow> hook_state" where
  "stopAnalysis s =
     (let s1 = s\<lparr>isAnalyzing := False\<rparr>;
          s2 = (case timerIntervalRef s1 of
                  None \<Rightarrow> s1
                | Some h \<Rightarrow> (clearTimer h s1)\<lparr>timerIntervalRef := None\<rparr>);
          s3 = releaseStream s2;
          s4 = resetVideo s3;
          s5 = (case abortControllerRef s4 of
                  None \<Rightarrow> s4
                | Some aborted \<Rightarrow> s4\<lparr>abortControllerRef := None\<rparr>)
      in s5\<lparr>toasts := toasts s5 @ [ToastInfo ''Emotion detection stopped'']\<rparr>)"

text \<open>One tick of the countdown, by the \<open>updateTimer\<close> of render \<open>r\<close>: the synchronous
  part of the capture runs inside the updater, which then returns 3. The promise of the
  capture is always fulfilled, so its \<^verbatim>\<open>catch\<close> handler never runs.\<close>

definition updateTimer :: "render \<Rightarrow> int \<Rightarrow> hook_state \<Rightarrow> hook_state" where
  "updateTimer r now s =
     (if timerCount s \<le> 1 then (fst (processVideoFrame_begin r now s))\<lparr>timerCount := 3\<rparr>
      else s\<lparr>timerCount := timerCount s - 1\<rparr>)"

text \<open>The cleanup of the effect, run when the component unmounts: it clears and stops,
  and nulls no ref.\<close>

definition unmountCleanup :: "hook_state \<Rightarrow> hook_state" where
  "unmountCleanup s =
     (let s1 = (case timerIntervalRef s of None \<Rightarrow> s | Some h \<Rightarrow> clearTimer h s);
          s2 = (case mediaStreamRef s1 of
                  None \<Rightarrow> s1
                | Some st \<Rightarrow> s1\<lparr>activeStreams := removeAll st (activeStreams s1)\<rparr>);
          s3 = (case popupTimeoutRef s2 of None \<Rightarrow> s2 | Some h \<Rightarrow> clearTimer h s2)
      in s3\<lparr>abortControllerRef := map_option (\<lambda>aborted. True) (abortControllerRef s3)\<rparr>)"

section \<open>The hook as a transition system\<close>

text \<open>
  Everything that can happen to the hook, one action per uninterrupted piece of code:
  the asynchronous operations are cut at their \<^verbatim>\<open>await\<close>s. A timer's callback runs
  with the render the timer carries. The continuations of \<open>startAnalysis\<close> and of
  \<open>processVideoFrame\<close> are allowed to run whether or not their call has begun, and with
  any render, so the states reached here include every state the hook can be in.
  \<open>processVideoFrame\<close> is called by the two timers only, and \<open>forceEmotionUpdate\<close> by
  the \<^verbatim>\<open>catch\<close> handlers only, which never run.
\<close>

datatype action =
    AttachRefs bool "bool option"
  | StartRelease
  | CameraAnswer media_result
  | MicAnswer media_result
  | StartProceed bool bool render int random_draws
  | Stop
  | FrameResume classifier_result int random_draws
  | Tick timer_handle render int
  | FirstCaptureDue timer_handle render int
  | PopupTimeout timer_handle int
  | SetShowEmotionPopup bool
  | SetShowInfo bool
  | Unmount

definition rescheduleInterval :: "timer_handle \<Rightarrow> int \<Rightarrow> hook_state \<Rightarrow> hook_state" where
  "rescheduleInterval h now s =
     s\<lparr>timers := map (\<lambda>(h', task, due). if h' = h then (h', task, now + 1000)
                                         else (h', task, due)) (timers s)\<rparr>"

fun perform :: "action \<Rightarrow> hook_state \<Rightarrow> hook_state option" where
  "perform (AttachRefs video canvas) s =
     Some (s\<lparr>videoRef := (if video then Some (case videoRef s of None \<Rightarrow> None | Some src \<Rightarrow> src)
                           else None),
             canvasRef := canvas\<rparr>)"
| "perform StartRelease s = Some (requestCameraPermission_begin (startAnalysis_release s))"
| "perform (CameraAnswer res) s = Some (snd (requestCameraPermission_settle res s))"
| "perform (MicAnswer res) s = Some (snd (requestMicPermission res s))"
| "perform (StartProceed hasCamera hasMic r now d) s =
     Some (startAnalysis_proceed hasCamera hasMic r now d s)"
| "perform Stop s = Some (stopAnalysis s)"
| "perform (FrameResume res tnow d) s = Some (processVideoFrame_resume res tnow d s)"
| "perform (Tick h r now) s =
     (if timerDue h (TickInterval r) now s
      then Some (updateTimer r now (rescheduleInterval h now s)) else None)"
| "perform (FirstCaptureDue h r now) s =
     (if timerDue h (FirstCapture r) now s
      then Some (fst (processVideoFrame_begin r now (clearTimer h s))) else None)"
| "perform (PopupTimeout h now) s = firePopupTimeout h now s"
| "perform (SetShowEmotionPopup b) s = Some (s\<lparr>showEmotionPopup := b\<rparr>)"
| "perform (SetShowInfo b) s = Some (s\<lparr>showInfo := b\<rparr>)"
| "perform Unmount s = Some (unmountCleanup s)"

inductive reachable :: "hook_state \<Rightarrow> bool" where
  reachable_initial: "reachable initial_state"
| reachable_step: "reachable s \<Longrightarrow> perform a s = Some s' \<Longrightarrow> reachable s'"

section \<open>Terms of the verified properties\<close>

subsection \<open>The bands of the specification's metric table\<close>

definition in_band :: "int \<Rightarrow> int \<times> int \<Rightarrow> bool" where
  "in_band v b = (fst b \<le> v \<and> v \<le> snd b)"

text \<open>The three columns of the table as the specification prints it (section 4.5).\<close>

definition spec_stress_band :: "string \<Rightarrow> int \<times> int" where
  "spec_stress_band e =
     (if e = ''stressed'' then (75, 99)
      else if e = ''confused'' then (50, 74)
      else if e = ''sad'' then (60, 79)
      else if e = ''neutral'' then (20, 39)
      else if e = ''focused'' then (10, 24)
      else if e = ''happy'' then (5, 14)
      else (15, 34))"

definition spec_engagement_band :: "string \<Rightarrow> int \<times> int" where
  "spec_engagement_band e =
     (if e = ''stressed'' then (15, 39)
      else if e = ''confused'' then (30, 69)
      else if e = ''sad'' then (20, 49)
      else if e = ''neutral'' then (50, 79)
      else if e = ''focused'' then (80, 99)
      else if e = ''happy'' then (80, 99)
      else (30, 69))"

definition spec_focus_band :: "string \<Rightarrow> int \<times> int" where
  "spec_focus_band e =
     (if e = ''stressed'' then (30, 59)
      else if e = ''confused'' then (30, 59)
      else if e = ''sad'' then (20, 39)
      else if e = ''neutral'' then (50, 69)
      else if e = ''focused'' then (85, 99)
      else if e = ''happy'' then (70, 89)
      else (30, 59))"

text \<open>The focus column with the one entry changed to what the source computes for
  \<open>''stressed''\<close>.\<close>

definition code_focus_band :: "string \<Rightarrow> int \<times> int" where
  "code_focus_band e = (if e = ''stressed'' then (15, 34) else spec_focus_band e)"

text \<open>The value a draw picks in a band: the low end plus \<open>\<lfloor>draw \<times> width\<rfloor>\<close>.\<close>

definition band_draw :: "int \<times> int \<Rightarrow> math_random \<Rightarrow> int" where
  "band_draw b r = fst b + random_floor r (snd b - fst b + 1)"

text \<open>The labels some branch of \<open>updateMetricsBasedOnEmotion\<close> names.\<close>

definition recognizedEmotions :: "string list" where
  "recognizedEmotions =
     [''stressed'', ''confused'', ''sad'', ''neutral'', ''focused'', ''happy'']"

subsection \<open>The three paths that record a classification event\<close>

text \<open>
  The success path and the \<^verbatim>\<open>catch\<close> path of \<open>processVideoFrame\<close>, each from the
  settled classifier call on, and \<open>forceEmotionUpdate\<close> of some render; with the event
  each one builds (\<open>forceEmotionUpdate\<close> builds none when its render is not analyzing).
\<close>

datatype history_path =
    ApiSuccessPath string real int random_draws
  | FallbackPath int random_draws
  | ForcePath render int random_draws

fun run_path :: "hook_state \<Rightarrow> history_path \<Rightarrow> hook_state" where
  "run_path s (ApiSuccessPath e c tnow d) = processVideoFrame_resume (ApiResolved e c) tnow d s"
| "run_path s (FallbackPath tnow d) = processVideoFrame_resume ApiRejected tnow d s"
| "run_path s (ForcePath r tnow d) = forceEmotionUpdate r tnow d s"

fun path_events :: "history_path \<Rightarrow> classification_event list" where
  "path_events (ApiSuccessPath e c tnow d) =
     [\<lparr>emotion = e, timestamp = tnow, score = c\<rparr>]"
| "path_events (FallbackPath tnow d) =
     [\<lparr>emotion = random_pick (pickDraw d) catchDummyEmotions, timestamp = tnow,
       score = random_score (scoreDraw d)\<rparr>]"
| "path_events (ForcePath r tnow d) =
     (if renderAnalyzing r
      then [\<lparr>emotion = random_pick (pickDraw d) forceDummyEmotions, timestamp = tnow,
             score = random_score (scoreDraw d)\<rparr>]
      else [])"

subsection \<open>Sample inputs\<close>

text \<open>Every draw is the number \<open>x\<close>.\<close>

definition draws_all :: "real \<Rightarrow> random_draws" where
  "draws_all x = \<lparr>pickDraw = random_of x, scoreDraw = random_of x, stressDraw = random_of x,
                   engagementDraw = random_of x, focusDraw = random_of x\<rparr>"

text \<open>A session that is analyzing: the initial state with the flag set, a camera
  stream held and the tick timer running.\<close>

definition analyzing_state :: hook_state where
  "analyzing_state = initial_state\<lparr>
     cameraPermission := Some True, micPermission := Some True, isAnalyzing := True,
     currentEmotion := Some ''neutral'',
     emotionHistory := [\<lparr>emotion = ''neutral'', timestamp = 0, score = 0.8\<rparr>],
     timerIntervalRef := Some 2, videoRef := Some (Some 7), mediaStreamRef := Some 7,
     timers := [(2, TickInterval (render_of initial_state), 1000)], nextHandle := 3,
     activeStreams := [7]\<rparr>"

text \<open>The same session after the classifier has answered with an empty label.\<close>

definition empty_label_state :: hook_state where
  "empty_label_state =
     processVideoFrame_resume (ApiResolved [] (9/10)) 5200 (draws_all 0) analyzing_state"

text \<open>From the initial state: a start with both permissions granted, and a second
  start, called from the render that followed the first.\<close>

definition started_once :: hook_state where
  "started_once =
     startAnalysis (render_of initial_state) (Granted 1) (Granted 2) 0 (draws_all 0)
       initial_state"

definition started_twice :: hook_state where
  "started_twice =
     startAnalysis (render_of started_once) (Granted 3) Denied 100 (draws_all 0) started_once"

subsection \<open>The popup's pending auto-dismiss\<close>

definition popup_timers :: "hook_state \<Rightarrow> (timer_handle \<times> timer_task \<times> int) list" where
  "popup_timers s = filter (\<lambda>(h, task, due). task = PopupHide) (timers s)"

text \<open>Every pending auto-dismiss is the one that \<open>popupTimeoutRef\<close> names.\<close>

definition popup_timers_tracked :: "hook_state \<Rightarrow> bool" where
  "popup_timers_tracked s =
     list_all (\<lambda>(h, task, due). popupTimeoutRef s = Some h) (popup_timers s)"

subsection \<open>The tick timer and the idle session\<close>

fun isTick :: "timer_task \<Rightarrow> bool" where
  "isTick (TickInterval r) = True"
| "isTick task = False"

definition tick_timers :: "hook_state \<Rightarrow> (timer_handle \<times> timer_task \<times> int) list" where
  "tick_timers s = filter (\<lambda>(h, task, due). isTick task) (timers s)"

text \<open>Every pending interval is the one that \<open>timerIntervalRef\<close> names.\<close>

definition tick_timers_tracked :: "hook_state \<Rightarrow> bool" where
  "tick_timers_tracked s =
     list_all (\<lambda>(h, task, due). timerIntervalRef s = Some h) (tick_timers s)"

text \<open>While the session is not analyzing, the timer handle is null; and the pending
  intervals are tracked.\<close>

definition session_invariant :: "hook_state \<Rightarrow> bool" where
  "session_invariant s = ((isAnalyzing s \<or> timerIntervalRef s = None) \<and> tick_timers_tracked s)"

text \<open>
  A start from the initial state, in the middle: the camera has been granted (stream 1)
  and the microphone has not answered yet.
\<close>

definition mid_start_state :: hook_state where
  "mid_start_state =
     snd (requestCameraPermission_settle (Granted 1)
            (requestCameraPermission_begin (startAnalysis_release initial_state)))"

section \<open>Verified properties\<close>

subsection \<open>Random draws\<close>

lemma Rep_math_random_bounds: "0 \<le> Rep_math_random r" "Rep_math_random r < 1"
  using Rep_math_random [of r] by simp_all

lemma random_floor_bounds:
  assumes "0 < n"
  shows "0 \<le> random_floor r n" and "random_floor r n \<le> n - 1"
proof -
  have n: "0 < (of_int n :: real)" using assms by simp
  have lo: "0 \<le> Rep_math_random r * of_int n"
    using Rep_math_random_bounds(1) n by simp
  have hi: "Rep_math_random r * of_int n < of_int n"
    using Rep_math_random_bounds(2) [of r] n by simp
  show "0 \<le> random_floor r n" using lo by (simp add: random_floor_def)
  have "random_floor r n < n" unfolding random_floor_def using hi by (simp add: floor_less_iff)
  then show "random_floor r n \<le> n - 1" by simp
qed

subsection \<open>Metric bands\<close>

lemma stress_in_band:
  "in_band (stressLevel (updateMetricsBasedOnEmotion e r1 r2 r3 s)) (spec_stress_band e)"
  using random_floor_bounds [of 25 r1] random_floor_bounds [of 20 r1]
    random_floor_bounds [of 15 r1] random_floor_bounds [of 10 r1]
  by (simp add: updateMetricsBasedOnEmotion_def spec_stress_band_def in_band_def)

lemma engagement_in_band:
  "in_band (engagementLevel (updateMetricsBasedOnEmotion e r1 r2 r3 s)) (spec_engagement_band e)"
  using random_floor_bounds [of 20 r2] random_floor_bounds [of 30 r2]
    random_floor_bounds [of 25 r2] random_floor_bounds [of 40 r2]
  by (simp add: updateMetricsBasedOnEmotion_def spec_engagement_band_def in_band_def)

lemma focus_in_band:
  "in_band (focusLevel (updateMetricsBasedOnEmotion e r1 r2 r3 s)) (code_focus_band e)"
  using random_floor_bounds [of 15 r3] random_floor_bounds [of 20 r3]
    random_floor_bounds [of 30 r3]
  by (simp add: updateMetricsBasedOnEmotion_def code_focus_band_def spec_focus_band_def in_band_def)

text \<open>
  C2, as the claim states it, fails: for \<open>''stressed''\<close> the source has a branch of its
  own for the focus level, \<open>15 + \<lfloor>20 r\<rfloor>\<close>, so a draw of 0 gives focus 15, below the
  band 30 to 59 that the table prints for it.
\<close>

theorem stressed_focus_outside_spec_band:
  "focusLevel (updateMetricsBasedOnEmotion ''stressed'' (random_of 0) (random_of 0) (random_of 0)
      initial_state) = 15 \<and>
   \<not> in_band (focusLevel (updateMetricsBasedOnEmotion ''stressed'' (random_of 0) (random_of 0)
      (random_of 0) initial_state)) (spec_focus_band ''stressed'')"
  by (simp add: updateMetricsBasedOnEmotion_def random_floor_def random_of.rep_eq
      in_band_def spec_focus_band_def)

text \<open>
  C2, amended: for every emotion label and every three draws, the stress and engagement
  levels lie in the bands of the table, and the focus level lies in the band of the table
  except for \<open>''stressed''\<close>, where it lies in 15 to 34. For \<open>''stressed''\<close> the bands are
  75 to 99, 15 to 39 and 15 to 34; for a label that no branch names they are the fallback
  bands 15 to 34, 30 to 69 and 30 to 59.
\<close>

theorem metrics_within_bands:
  "in_band (stressLevel (updateMetricsBasedOnEmotion e r1 r2 r3 s)) (spec_stress_band e) \<and>
   in_band (engagementLevel (updateMetricsBasedOnEmotion e r1 r2 r3 s)) (spec_engagement_band e) \<and>
   in_band (focusLevel (updateMetricsBasedOnEmotion e r1 r2 r3 s)) (code_focus_band e) \<and>
   (e = ''stressed'' \<longrightarrow>
      spec_stress_band e = (75, 99) \<and> spec_engagement_band e = (15, 39) \<and>
      code_focus_band e = (15, 34)) \<and>
   (e \<notin> set recognizedEmotions \<longrightarrow>
      spec_stress_band e = (15, 34) \<and> spec_engagement_band e = (30, 69) \<and>
      code_focus_band e = (30, 59))"
  using stress_in_band [of e r1 r2 r3 s] engagement_in_band [of e r1 r2 r3 s]
    focus_in_band [of e r1 r2 r3 s]
  by (simp add: spec_stress_band_def spec_engagement_band_def code_focus_band_def
      spec_focus_band_def recognizedEmotions_def)

theorem metrics_within_bands_witness:
  "''bored'' \<notin> set recognizedEmotions \<and>
   in_band (stressLevel (updateMetricsBasedOnEmotion ''bored'' (random_of 0) (random_of (1/2))
      (random_of (9/10)) initial_state)) (15, 34) \<and>
   in_band (engagementLevel (updateMetricsBasedOnEmotion ''bored'' (random_of 0) (random_of (1/2))
      (random_of (9/10)) initial_state)) (30, 69) \<and>
   in_band (focusLevel (updateMetricsBasedOnEmotion ''bored'' (random_of 0) (random_of (1/2))
      (random_of (9/10)) initial_state)) (30, 59)"
  using metrics_within_bands [of "''bored''" "random_of 0" "random_of (1/2)" "random_of (9/10)"
      initial_state]
  by (simp add: recognizedEmotions_def spec_stress_band_def spec_engagement_band_def
      code_focus_band_def spec_focus_band_def)

text \<open>Each metric is the draw's pick in its band: the band's low end plus
  \<open>\<lfloor>draw \<times> width\<rfloor>\<close>.\<close>

lemma metric_values:
  "stressLevel (updateMetricsBasedOnEmotion e r1 r2 r3 s) = band_draw (spec_stress_band e) r1"
  "engagementLevel (updateMetricsBasedOnEmotion e r1 r2 r3 s) =
     band_draw (spec_engagement_band e) r2"
  "focusLevel (updateMetricsBasedOnEmotion e r1 r2 r3 s) = band_draw (code_focus_band e) r3"
  by (simp_all add: updateMetricsBasedOnEmotion_def band_draw_def spec_stress_band_def
      spec_engagement_band_def code_focus_band_def spec_focus_band_def)

lemma band_draw_in_band: "fst b \<le> snd b \<Longrightarrow> in_band (band_draw b r) b"
  using random_floor_bounds [of "snd b - fst b + 1" r] by (simp add: band_draw_def in_band_def)



lemma band_draw_in_bands:
  "in_band (band_draw (spec_stress_band e) x) (spec_stress_band e)"
  "in_band (band_draw (spec_engagement_band e) x) (spec_engagement_band e)"
  "in_band (band_draw (code_focus_band e) x) (code_focus_band e)"
  using stress_in_band [of e x x x initial_state] engagement_in_band [of e x x x initial_state]
    focus_in_band [of e x x x initial_state]
  by (simp_all add: metric_values)

subsection \<open>The rolling history\<close>

lemma slice_last_length: "length (slice_last n xs) \<le> n"
  by (simp add: slice_last_def)

lemma slice_last_short: "length xs \<le> n \<Longrightarrow> slice_last n xs = xs"
  by (simp add: slice_last_def)

lemma slice_last_absorb: "slice_last n (slice_last n xs @ ys) = slice_last n (xs @ ys)"
proof (cases "length xs \<le> n")
  case True
  then show ?thesis by (simp add: slice_last_short)
next
  case False
  then have "length xs - n + length ys = length xs + length ys - n" by simp
  with False show ?thesis by (simp add: slice_last_def add.commute)
qed

lemma updateMetrics_frame:
  "isAnalyzing (updateMetricsBasedOnEmotion e r1 r2 r3 s) = isAnalyzing s"
  "emotionHistory (updateMetricsBasedOnEmotion e r1 r2 r3 s) = emotionHistory s"
  "currentEmotion (updateMetricsBasedOnEmotion e r1 r2 r3 s) = currentEmotion s"
  by (simp_all add: updateMetricsBasedOnEmotion_def)

lemma showPopup_frame:
  "isAnalyzing (showEmotionalSupportPopup e now s) = isAnalyzing s"
  "emotionHistory (showEmotionalSupportPopup e now s) = emotionHistory s"
  "currentEmotion (showEmotionalSupportPopup e now s) = currentEmotion s"
  by (simp_all add: showEmotionalSupportPopup_def setTimer_def clearTimer_def Let_def
      split: option.splits)

lemma run_path_isAnalyzing: "isAnalyzing (run_path s p) = isAnalyzing s"
  by (cases p)
    (simp_all add: processVideoFrame_resume_def processVideoFrame_finally_def
      forceEmotionUpdate_def updateMetrics_frame showPopup_frame Let_def)

lemma run_path_history:
  "emotionHistory (run_path s p) =
     slice_last 12 (slice_last 12 (emotionHistory s) @ path_events p) \<or>
   (path_events p = [] \<and> emotionHistory (run_path s p) = emotionHistory s)"
  by (cases p)
    (simp_all add: processVideoFrame_resume_def processVideoFrame_finally_def
      forceEmotionUpdate_def updateMetrics_frame showPopup_frame Let_def appendHistory_def
      slice_last_absorb)

lemma run_path_history_bounded:
  assumes "length (emotionHistory s) \<le> 12"
  shows "emotionHistory (run_path s p) =
           slice_last 12 (emotionHistory s @ path_events p)"
  using run_path_history [of s p] assms
  by (auto simp: slice_last_short slice_last_absorb)

lemma run_paths_history:
  "length (emotionHistory s) \<le> 12 \<Longrightarrow>
   emotionHistory (foldl run_path s ps) =
     slice_last 12 (emotionHistory s @ concat (map path_events ps))"
proof (induction ps arbitrary: s)
  case Nil
  then show ?case by (simp add: slice_last_short)
next
  case (Cons p ps)
  let ?s1 = "run_path s p"
  have h1: "emotionHistory ?s1 = slice_last 12 (emotionHistory s @ path_events p)"
    using Cons.prems by (rule run_path_history_bounded)
  then have "length (emotionHistory ?s1) \<le> 12" by (simp add: slice_last_length)
  then have "emotionHistory (foldl run_path ?s1 ps) =
      slice_last 12 (emotionHistory ?s1 @ concat (map path_events ps))"
    by (rule Cons.IH)
  then show ?case by (simp add: h1 slice_last_absorb)
qed

text \<open>
  C1: from a history of at most 12 events, after any sequence of the three recording
  paths (success, \<^verbatim>\<open>catch\<close> fallback, forced update, each forced update with the
  render it belongs to) the history is the last 12 of the old history followed by the
  events recorded, in the order they came, and has at most 12 entries.
\<close>

theorem history_keeps_most_recent_twelve:
  assumes "length (emotionHistory s) \<le> 12"
  shows "emotionHistory (foldl run_path s ps) =
           slice_last 12 (emotionHistory s @ concat (map path_events ps)) \<and>
         length (emotionHistory (foldl run_path s ps)) \<le> 12"
  using run_paths_history [OF assms, of ps] by (simp add: slice_last_length)


theorem history_keeps_most_recent_twelve_witness:
  "length (emotionHistory analyzing_state) \<le> 12 \<and>
   emotionHistory (foldl run_path analyzing_state
      (replicate 11 (ApiSuccessPath ''sad'' (9/10) 5 (draws_all 0)) @
       [FallbackPath 6 (draws_all 0), ForcePath (render_of analyzing_state) 7 (draws_all 0)])) =
     replicate 10 \<lparr>emotion = ''sad'', timestamp = 5, score = 9/10\<rparr> @
     [\<lparr>emotion = random_pick (random_of 0) catchDummyEmotions, timestamp = 6,
        score = random_score (random_of 0)\<rparr>,
      \<lparr>emotion = random_pick (random_of 0) forceDummyEmotions, timestamp = 7,
        score = random_score (random_of 0)\<rparr>]"
  using history_keeps_most_recent_twelve [of analyzing_state
      "replicate 11 (ApiSuccessPath ''sad'' (9/10) 5 (draws_all 0)) @
       [FallbackPath 6 (draws_all 0), ForcePath (render_of analyzing_state) 7 (draws_all 0)]"]
  by (simp add: analyzing_state_def initial_state_def slice_last_def draws_all_def
      render_of_def numeral_eq_Suc)

subsection \<open>The rate gate\<close>

text \<open>
  C5: a call of \<open>processVideoFrame\<close>, of any render, made less than 1000 ms after the
  recorded time of the last attempt returns with the state exactly as it was: no event,
  no countdown reset, no processing flag, no change to the token, no notification. Its
  promise is fulfilled, so the \<^verbatim>\<open>catch\<close> handler of its callers does not run either.
\<close>

theorem rate_limited_capture_is_noop:
  assumes "now - lastApiCallTimeRef s < 1000"
  shows "processVideoFrame_begin r now s = (s, Returned) \<and>
         processVideoFrame r now res tnow d s = (s, Fulfilled) \<and>
         processVideoFrame_caught r now res tnow d s = s"
  using assms
  by (simp add: processVideoFrame_begin_def processVideoFrame_def processVideoFrame_caught_def)

theorem rate_limited_capture_is_noop_witness:
  "(999::int) - lastApiCallTimeRef analyzing_state < 1000 \<and>
   videoRef analyzing_state \<noteq> None \<and> canvasRef analyzing_state \<noteq> None \<and>
   renderAnalyzing (render_of analyzing_state) \<and>
   \<not> renderProcessing (render_of analyzing_state) \<and>
   processVideoFrame (render_of analyzing_state) 999 (ApiResolved ''sad'' (9/10)) 1200
     (draws_all 0) analyzing_state = (analyzing_state, Fulfilled)"
  using rate_limited_capture_is_noop [of 999 analyzing_state "render_of analyzing_state"
      "ApiResolved ''sad'' (9/10)" 1200 "draws_all 0"]
  by (simp add: analyzing_state_def initial_state_def render_of_def)

lemma capture_after_interval_dispatches:
  "snd (processVideoFrame_begin (render_of analyzing_state) 1000 analyzing_state) = Awaiting"
  by (simp add: processVideoFrame_begin_def analyzing_state_def initial_state_def
      processVideoFrame_finally_def render_of_def Let_def)

subsection \<open>Stopping\<close>

lemma stop_fields:
  "mediaStreamRef (stopAnalysis s) = None" "timerIntervalRef (stopAnalysis s) = None"
  "abortControllerRef (stopAnalysis s) = None" "\<not> isAnalyzing (stopAnalysis s)"
  by (simp_all add: stopAnalysis_def releaseStream_def resetVideo_def clearTimer_def Let_def
      split: option.splits)


lemma stopAnalysis_eq:
  "stopAnalysis s = s\<lparr>
     isAnalyzing := False,
     timerIntervalRef := None,
     timers := (case timerIntervalRef s of None \<Rightarrow> timers s
                | Some h \<Rightarrow> filter (\<lambda>(h', task, due). h' \<noteq> h) (timers s)),
     mediaStreamRef := None,
     activeStreams := (case mediaStreamRef s of None \<Rightarrow> activeStreams s
                       | Some st \<Rightarrow> removeAll st (activeStreams s)),
     videoRef := map_option (\<lambda>src. None) (videoRef s),
     abortControllerRef := None,
     toasts := toasts s @ [ToastInfo ''Emotion detection stopped'']\<rparr>"
  by (cases s)
    (simp add: stopAnalysis_def releaseStream_def resetVideo_def clearTimer_def Let_def
      split: option.splits)

text \<open>
  C9: \<open>stopAnalysis\<close> is a total function of the state (it has no failing path), and
  after one call and after a second one the stream ref, the timer handle and the token
  are null and \<open>isAnalyzing\<close> is false. The second call changes nothing but the list of
  notifications, to which it adds its own.
\<close>

theorem stop_twice_releases_everything:
  "mediaStreamRef (stopAnalysis s) = None \<and> timerIntervalRef (stopAnalysis s) = None \<and>
   abortControllerRef (stopAnalysis s) = None \<and> \<not> isAnalyzing (stopAnalysis s) \<and>
   mediaStreamRef (stopAnalysis (stopAnalysis s)) = None \<and>
   timerIntervalRef (stopAnalysis (stopAnalysis s)) = None \<and>
   abortControllerRef (stopAnalysis (stopAnalysis s)) = None \<and>
   \<not> isAnalyzing (stopAnalysis (stopAnalysis s)) \<and>
   stopAnalysis (stopAnalysis s) =
     (stopAnalysis s)\<lparr>toasts := toasts (stopAnalysis s) @ [ToastInfo ''Emotion detection stopped'']\<rparr>"
proof -
  have "stopAnalysis (stopAnalysis s) =
     (stopAnalysis s)\<lparr>toasts := toasts (stopAnalysis s) @ [ToastInfo ''Emotion detection stopped'']\<rparr>"
    by (cases s) (simp add: stopAnalysis_eq option.map_comp comp_def)
  then show ?thesis by (simp add: stop_fields)
qed

theorem stop_twice_releases_everything_witness:
  "mediaStreamRef analyzing_state = Some 7 \<and> isAnalyzing analyzing_state \<and>
   mediaStreamRef (stopAnalysis analyzing_state) = None \<and>
   timerIntervalRef (stopAnalysis analyzing_state) = None \<and>
   abortControllerRef (stopAnalysis analyzing_state) = None \<and>
   \<not> isAnalyzing (stopAnalysis analyzing_state) \<and>
   mediaStreamRef (stopAnalysis (stopAnalysis analyzing_state)) = None \<and>
   timers (stopAnalysis (stopAnalysis analyzing_state)) = []"
  using stop_twice_releases_everything [of analyzing_state]
  by (simp add: stopAnalysis_eq analyzing_state_def initial_state_def)

subsection \<open>Stop and restart\<close>

lemma requestCameraPermission_data:
  "currentEmotion (snd (requestCameraPermission res s)) = currentEmotion s"
  "emotionHistory (snd (requestCameraPermission res s)) = emotionHistory s"
  "stressLevel (snd (requestCameraPermission res s)) = stressLevel s"
  "engagementLevel (snd (requestCameraPermission res s)) = engagementLevel s"
  "focusLevel (snd (requestCameraPermission res s)) = focusLevel s"
  "micPermission (snd (requestCameraPermission res s)) = micPermission s"
  by (simp_all add: requestCameraPermission_def requestCameraPermission_settle_def
      requestCameraPermission_begin_def releaseStream_def resetVideo_def
      split: option.splits media_result.splits)

lemma requestMicPermission_data:
  "currentEmotion (snd (requestMicPermission res s)) = currentEmotion s"
  "emotionHistory (snd (requestMicPermission res s)) = emotionHistory s"
  "stressLevel (snd (requestMicPermission res s)) = stressLevel s"
  "engagementLevel (snd (requestMicPermission res s)) = engagementLevel s"
  "focusLevel (snd (requestMicPermission res s)) = focusLevel s"
  by (simp_all add: requestMicPermission_def split: media_result.splits)

lemma startAnalysis_release_data:
  "currentEmotion (startAnalysis_release s) = currentEmotion s"
  "emotionHistory (startAnalysis_release s) = emotionHistory s"
  "stressLevel (startAnalysis_release s) = stressLevel s"
  "engagementLevel (startAnalysis_release s) = engagementLevel s"
  "focusLevel (startAnalysis_release s) = focusLevel s"
  "micPermission (startAnalysis_release s) = micPermission s"
  by (simp_all add: startAnalysis_release_def releaseStream_def resetVideo_def
      split: option.splits)

lemma startAnalysis_proceed_data:
  assumes "\<not> falsyEmotion (renderCurrentEmotion r)"
  shows "currentEmotion (startAnalysis_proceed hasCamera hasMic r now d s) = currentEmotion s"
    "emotionHistory (startAnalysis_proceed hasCamera hasMic r now d s) = emotionHistory s"
    "stressLevel (startAnalysis_proceed hasCamera hasMic r now d s) = stressLevel s"
    "engagementLevel (startAnalysis_proceed hasCamera hasMic r now d s) = engagementLevel s"
    "focusLevel (startAnalysis_proceed hasCamera hasMic r now d s) = focusLevel s"
  using assms by (simp_all add: startAnalysis_proceed_def setTimer_def Let_def)

lemma startAnalysis_proceed_seed:
  assumes "falsyEmotion (renderCurrentEmotion r)"
  shows "currentEmotion (startAnalysis_proceed True True r now d s) = Some ''neutral''"
    "emotionHistory (startAnalysis_proceed True True r now d s) =
       [\<lparr>emotion = ''neutral'', timestamp = now, score = 0.8\<rparr>]"
    "stressLevel (startAnalysis_proceed True True r now d s) =
       band_draw (spec_stress_band ''neutral'') (stressDraw d)"
    "engagementLevel (startAnalysis_proceed True True r now d s) =
       band_draw (spec_engagement_band ''neutral'') (engagementDraw d)"
    "focusLevel (startAnalysis_proceed True True r now d s) =
       band_draw (code_focus_band ''neutral'') (focusDraw d)"
  using assms
  by (simp_all add: startAnalysis_proceed_def setTimer_def Let_def metric_values
      updateMetrics_frame)

lemma startAnalysis_data:
  assumes "\<not> falsyEmotion (renderCurrentEmotion r)"
  shows "currentEmotion (startAnalysis r cam mic now d s) = currentEmotion s"
    "emotionHistory (startAnalysis r cam mic now d s) = emotionHistory s"
    "stressLevel (startAnalysis r cam mic now d s) = stressLevel s"
    "engagementLevel (startAnalysis r cam mic now d s) = engagementLevel s"
    "focusLevel (startAnalysis r cam mic now d s) = focusLevel s"
  using assms
  by (simp_all add: startAnalysis_def split_beta startAnalysis_proceed_data
      requestCameraPermission_data requestMicPermission_data startAnalysis_release_data)

lemma startAnalysis_granted:
  "startAnalysis r (Granted st) (Granted st') now d s =
     startAnalysis_proceed True True r now d
       (if renderMicPermission r = Some True
        then snd (requestCameraPermission (Granted st) (startAnalysis_release s))
        else snd (requestMicPermission (Granted st')
               (snd (requestCameraPermission (Granted st) (startAnalysis_release s)))))"
  by (simp add: startAnalysis_def split_beta requestCameraPermission_def
      requestCameraPermission_settle_def requestMicPermission_def)

lemma startAnalysis_seed:
  assumes "falsyEmotion (renderCurrentEmotion r)"
  shows "currentEmotion (startAnalysis r (Granted st) (Granted st') now d s) = Some ''neutral''"
    "emotionHistory (startAnalysis r (Granted st) (Granted st') now d s) =
       [\<lparr>emotion = ''neutral'', timestamp = now, score = 0.8\<rparr>]"
    "stressLevel (startAnalysis r (Granted st) (Granted st') now d s) =
       band_draw (spec_stress_band ''neutral'') (stressDraw d)"
    "engagementLevel (startAnalysis r (Granted st) (Granted st') now d s) =
       band_draw (spec_engagement_band ''neutral'') (engagementDraw d)"
    "focusLevel (startAnalysis r (Granted st) (Granted st') now d s) =
       band_draw (code_focus_band ''neutral'') (focusDraw d)"
  using assms by (simp_all only: startAnalysis_granted startAnalysis_proceed_seed)

lemma render_of_fields:
  "renderAnalyzing (render_of s) = isAnalyzing s"
  "renderProcessing (render_of s) = isProcessing s"
  "renderMicPermission (render_of s) = micPermission s"
  "renderCurrentEmotion (render_of s) = currentEmotion s"
  by (simp_all add: render_of_def)


lemma startAnalysis_mic_known:
  assumes "renderMicPermission r = Some True"
  shows "startAnalysis r (Granted st) mic now d s =
     startAnalysis_proceed True True r now d
       (snd (requestCameraPermission (Granted st) (startAnalysis_release s)))"
  using assms
  by (simp add: startAnalysis_def split_beta requestCameraPermission_def
      requestCameraPermission_settle_def)

subsection \<open>Sample inputs\<close>

lemma draws_all_fields:
  "pickDraw (draws_all x) = random_of x" "scoreDraw (draws_all x) = random_of x"
  "stressDraw (draws_all x) = random_of x" "engagementDraw (draws_all x) = random_of x"
  "focusDraw (draws_all x) = random_of x"
  by (simp_all add: draws_all_def)

lemma analyzing_state_fields:
  "isAnalyzing analyzing_state" "\<not> isProcessing analyzing_state"
  "videoRef analyzing_state = Some (Some 7)" "canvasRef analyzing_state = Some True"
  "lastApiCallTimeRef analyzing_state = 0" "currentEmotion analyzing_state = Some ''neutral''"
  "emotionHistory analyzing_state = [\<lparr>emotion = ''neutral'', timestamp = 0, score = 0.8\<rparr>]"
  "\<not> showEmotionPopup analyzing_state" "popupEmotion analyzing_state = None"
  "popupTimeoutRef analyzing_state = None"
  "timers analyzing_state = [(2, TickInterval (render_of initial_state), 1000)]"
  "toasts analyzing_state = []" "nextHandle analyzing_state = 3"
  "abortControllerRef analyzing_state = None" "timerIntervalRef analyzing_state = Some 2"
  "mediaStreamRef analyzing_state = Some 7" "micPermission analyzing_state = Some True"
  "stressLevel analyzing_state = 0" "engagementLevel analyzing_state = 0"
  "focusLevel analyzing_state = 0"
  by (simp_all add: analyzing_state_def initial_state_def)

lemma random_floor_zero: "random_floor (random_of 0) n = 0"
  by (simp add: random_floor_def random_of.rep_eq)

lemma empty_label_state_fields:
  "currentEmotion empty_label_state = Some []"
  "emotionHistory empty_label_state =
     [\<lparr>emotion = ''neutral'', timestamp = 0, score = 0.8\<rparr>,
      \<lparr>emotion = [], timestamp = 5200, score = 9/10\<rparr>]"
  "stressLevel empty_label_state = 15" "engagementLevel empty_label_state = 30"
  "focusLevel empty_label_state = 30" "micPermission empty_label_state = Some True"
  by (simp_all add: empty_label_state_def processVideoFrame_resume_def
      processVideoFrame_finally_def Let_def updateMetricsBasedOnEmotion_def
      analyzing_state_fields draws_all_fields random_floor_zero appendHistory_def
      slice_last_def)

subsection \<open>Restart\<close>

text \<open>
  C10, as the claim states it, fails: the restart keeps the emotion data only when a
  current emotion is set. After a session in which the classifier answered with the
  empty label, a stop followed by a start replaces the two events of the history by the
  neutral seed and redraws the metrics; and from the initial state, where no emotion is
  set, a stop followed by a start applies the seed as well.
\<close>

theorem restart_reseeds_unset_emotion:
  "currentEmotion empty_label_state = Some [] \<and>
   emotionHistory empty_label_state =
     [\<lparr>emotion = ''neutral'', timestamp = 0, score = 0.8\<rparr>,
      \<lparr>emotion = [], timestamp = 5200, score = 9/10\<rparr>] \<and>
   stressLevel empty_label_state = 15 \<and>
   currentEmotion (startAnalysis (render_of (stopAnalysis empty_label_state)) (Granted 8) Denied
      9000 (draws_all 0) (stopAnalysis empty_label_state)) = Some ''neutral'' \<and>
   emotionHistory (startAnalysis (render_of (stopAnalysis empty_label_state)) (Granted 8) Denied
      9000 (draws_all 0) (stopAnalysis empty_label_state)) =
     [\<lparr>emotion = ''neutral'', timestamp = 9000, score = 0.8\<rparr>] \<and>
   stressLevel (startAnalysis (render_of (stopAnalysis empty_label_state)) (Granted 8) Denied
      9000 (draws_all 0) (stopAnalysis empty_label_state)) = 20 \<and>
   emotionHistory initial_state = [] \<and> stressLevel initial_state = 0 \<and>
   emotionHistory (startAnalysis (render_of (stopAnalysis initial_state)) (Granted 1) (Granted 2)
      0 (draws_all 0) (stopAnalysis initial_state)) =
     [\<lparr>emotion = ''neutral'', timestamp = 0, score = 0.8\<rparr>] \<and>
   stressLevel (startAnalysis (render_of (stopAnalysis initial_state)) (Granted 1) (Granted 2)
      0 (draws_all 0) (stopAnalysis initial_state)) = 20"
proof -
  have r1: "renderMicPermission (render_of (stopAnalysis empty_label_state)) = Some True"
      "falsyEmotion (renderCurrentEmotion (render_of (stopAnalysis empty_label_state)))"
    by (simp_all add: render_of_fields stopAnalysis_eq empty_label_state_fields falsyEmotion_def)
  have r2: "falsyEmotion (renderCurrentEmotion (render_of (stopAnalysis initial_state)))"
    by (simp add: render_of_fields stopAnalysis_eq initial_state_def falsyEmotion_def)
  have neutral: "band_draw (spec_stress_band ''neutral'') (random_of 0) = 20"
    by (simp add: band_draw_def spec_stress_band_def random_floor_zero)
  show ?thesis
    by (simp add: startAnalysis_mic_known [OF r1(1)] startAnalysis_proceed_seed [OF r1(2)]
        startAnalysis_seed [OF r2] empty_label_state_fields draws_all_fields neutral)
      (simp add: initial_state_def)
qed

text \<open>
  C10, amended: \<open>stopAnalysis\<close> changes \<open>isAnalyzing\<close>, the timer handle (and the
  browser's interval), the media stream (and its tracks), the video display and the
  token, and adds its notification; every other field is as before, in particular the
  current emotion, the history, the three metrics, the popup state and both permission
  states. When a current emotion is set (\<^verbatim>\<open>!currentEmotion\<close> is false), a stop followed
  by a start (called from the render that follows the stop), whatever the permissions
  answer, leaves the current emotion, the history and the metrics as they were: the
  neutral seed is not applied. When none is set
  (\<^verbatim>\<open>null\<close>, or the empty label), a stop followed by a start that is granted both
  devices applies the seed: the current emotion is \<open>''neutral''\<close>, the history is the one
  seed event, and the metrics are drawn in the bands of \<open>''neutral''\<close>.
\<close>

theorem stop_keeps_data_model:
  "stopAnalysis s = s\<lparr>
     isAnalyzing := False,
     timerIntervalRef := None,
     timers := (case timerIntervalRef s of None \<Rightarrow> timers s
                | Some h \<Rightarrow> filter (\<lambda>(h', task, due). h' \<noteq> h) (timers s)),
     mediaStreamRef := None,
     activeStreams := (case mediaStreamRef s of None \<Rightarrow> activeStreams s
                       | Some st \<Rightarrow> removeAll st (activeStreams s)),
     videoRef := map_option (\<lambda>src. None) (videoRef s),
     abortControllerRef := None,
     toasts := toasts s @ [ToastInfo ''Emotion detection stopped'']\<rparr> \<and>
   currentEmotion (stopAnalysis s) = currentEmotion s \<and>
   emotionHistory (stopAnalysis s) = emotionHistory s \<and>
   stressLevel (stopAnalysis s) = stressLevel s \<and>
   engagementLevel (stopAnalysis s) = engagementLevel s \<and>
   focusLevel (stopAnalysis s) = focusLevel s \<and>
   showEmotionPopup (stopAnalysis s) = showEmotionPopup s \<and>
   popupEmotion (stopAnalysis s) = popupEmotion s \<and>
   cameraPermission (stopAnalysis s) = cameraPermission s \<and>
   micPermission (stopAnalysis s) = micPermission s \<and>
   (\<not> falsyEmotion (currentEmotion s) \<longrightarrow>
      currentEmotion (startAnalysis (render_of (stopAnalysis s)) cam mic now d (stopAnalysis s))
        = currentEmotion s \<and>
      emotionHistory (startAnalysis (render_of (stopAnalysis s)) cam mic now d (stopAnalysis s))
        = emotionHistory s \<and>
      stressLevel (startAnalysis (render_of (stopAnalysis s)) cam mic now d (stopAnalysis s))
        = stressLevel s \<and>
      engagementLevel (startAnalysis (render_of (stopAnalysis s)) cam mic now d (stopAnalysis s))
        = engagementLevel s \<and>
      focusLevel (startAnalysis (render_of (stopAnalysis s)) cam mic now d (stopAnalysis s))
        = focusLevel s) \<and>
   (falsyEmotion (currentEmotion s) \<longrightarrow>
      currentEmotion (startAnalysis (render_of (stopAnalysis s)) (Granted st) (Granted st') now d
        (stopAnalysis s)) = Some ''neutral'' \<and>
      emotionHistory (startAnalysis (render_of (stopAnalysis s)) (Granted st) (Granted st') now d
        (stopAnalysis s)) = [\<lparr>emotion = ''neutral'', timestamp = now, score = 0.8\<rparr>] \<and>
      stressLevel (startAnalysis (render_of (stopAnalysis s)) (Granted st) (Granted st') now d
        (stopAnalysis s)) = band_draw (spec_stress_band ''neutral'') (stressDraw d) \<and>
      engagementLevel (startAnalysis (render_of (stopAnalysis s)) (Granted st) (Granted st') now d
        (stopAnalysis s)) = band_draw (spec_engagement_band ''neutral'') (engagementDraw d) \<and>
      focusLevel (startAnalysis (render_of (stopAnalysis s)) (Granted st) (Granted st') now d
        (stopAnalysis s)) = band_draw (code_focus_band ''neutral'') (focusDraw d))"
proof -
  let ?r = "render_of (stopAnalysis s)"
  have eq: "stopAnalysis s = s\<lparr>
     isAnalyzing := False,
     timerIntervalRef := None,
     timers := (case timerIntervalRef s of None \<Rightarrow> timers s
                | Some h \<Rightarrow> filter (\<lambda>(h', task, due). h' \<noteq> h) (timers s)),
     mediaStreamRef := None,
     activeStreams := (case mediaStreamRef s of None \<Rightarrow> activeStreams s
                       | Some st \<Rightarrow> removeAll st (activeStreams s)),
     videoRef := map_option (\<lambda>src. None) (videoRef s),
     abortControllerRef := None,
     toasts := toasts s @ [ToastInfo ''Emotion detection stopped'']\<rparr>"
    by (rule stopAnalysis_eq)
  have data: "currentEmotion (stopAnalysis s) = currentEmotion s"
    "emotionHistory (stopAnalysis s) = emotionHistory s"
    "stressLevel (stopAnalysis s) = stressLevel s"
    "engagementLevel (stopAnalysis s) = engagementLevel s"
    "focusLevel (stopAnalysis s) = focusLevel s"
    "showEmotionPopup (stopAnalysis s) = showEmotionPopup s"
    "popupEmotion (stopAnalysis s) = popupEmotion s"
    "cameraPermission (stopAnalysis s) = cameraPermission s"
    "micPermission (stopAnalysis s) = micPermission s"
    by (simp_all add: stopAnalysis_eq)
  have captured: "renderCurrentEmotion ?r = currentEmotion s"
    by (simp add: render_of_fields data)
  have kept: "currentEmotion (startAnalysis ?r cam mic now d (stopAnalysis s)) = currentEmotion s \<and>
      emotionHistory (startAnalysis ?r cam mic now d (stopAnalysis s)) = emotionHistory s \<and>
      stressLevel (startAnalysis ?r cam mic now d (stopAnalysis s)) = stressLevel s \<and>
      engagementLevel (startAnalysis ?r cam mic now d (stopAnalysis s)) = engagementLevel s \<and>
      focusLevel (startAnalysis ?r cam mic now d (stopAnalysis s)) = focusLevel s"
    if "\<not> falsyEmotion (currentEmotion s)"
  proof -
    from that have "\<not> falsyEmotion (renderCurrentEmotion ?r)" by (simp add: captured)
    then show ?thesis by (simp add: startAnalysis_data data)
  qed
  have seeded: "currentEmotion (startAnalysis ?r (Granted st) (Granted st') now d
        (stopAnalysis s)) = Some ''neutral'' \<and>
      emotionHistory (startAnalysis ?r (Granted st) (Granted st') now d
        (stopAnalysis s)) = [\<lparr>emotion = ''neutral'', timestamp = now, score = 0.8\<rparr>] \<and>
      stressLevel (startAnalysis ?r (Granted st) (Granted st') now d
        (stopAnalysis s)) = band_draw (spec_stress_band ''neutral'') (stressDraw d) \<and>
      engagementLevel (startAnalysis ?r (Granted st) (Granted st') now d
        (stopAnalysis s)) = band_draw (spec_engagement_band ''neutral'') (engagementDraw d) \<and>
      focusLevel (startAnalysis ?r (Granted st) (Granted st') now d
        (stopAnalysis s)) = band_draw (code_focus_band ''neutral'') (focusDraw d)"
    if "falsyEmotion (currentEmotion s)"
  proof -
    from that have "falsyEmotion (renderCurrentEmotion ?r)" by (simp add: captured)
    then show ?thesis by (simp only: startAnalysis_seed simp_thms)
  qed
  from eq data kept seeded show ?thesis by blast
qed

theorem stop_keeps_data_model_witness:
  "\<not> falsyEmotion (currentEmotion analyzing_state) \<and>
   emotionHistory (stopAnalysis analyzing_state) =
     [\<lparr>emotion = ''neutral'', timestamp = 0, score = 0.8\<rparr>] \<and>
   currentEmotion (startAnalysis (render_of (stopAnalysis analyzing_state)) (Granted 8) Denied 50
      (draws_all 0) (stopAnalysis analyzing_state)) = Some ''neutral'' \<and>
   emotionHistory (startAnalysis (render_of (stopAnalysis analyzing_state)) (Granted 8) Denied 50
      (draws_all 0) (stopAnalysis analyzing_state)) =
     [\<lparr>emotion = ''neutral'', timestamp = 0, score = 0.8\<rparr>] \<and>
   stressLevel (startAnalysis (render_of (stopAnalysis analyzing_state)) (Granted 8) Denied 50
      (draws_all 0) (stopAnalysis analyzing_state)) = 0 \<and>
   falsyEmotion (currentEmotion empty_label_state) \<and>
   emotionHistory (startAnalysis (render_of (stopAnalysis empty_label_state)) (Granted 8)
      (Granted 9) 9000 (draws_all (1/2)) (stopAnalysis empty_label_state)) =
     [\<lparr>emotion = ''neutral'', timestamp = 9000, score = 0.8\<rparr>] \<and>
   stressLevel (startAnalysis (render_of (stopAnalysis empty_label_state)) (Granted 8)
      (Granted 9) 9000 (draws_all (1/2)) (stopAnalysis empty_label_state)) = 30"
proof -
  have pre: "\<not> falsyEmotion (currentEmotion analyzing_state)"
    by (simp add: analyzing_state_fields falsyEmotion_def)
  have pre': "falsyEmotion (currentEmotion empty_label_state)"
    by (simp add: empty_label_state_fields falsyEmotion_def)
  from stop_keeps_data_model [of analyzing_state "Granted 8" Denied 50 "draws_all 0"] pre
  have kept: "emotionHistory (stopAnalysis analyzing_state) = emotionHistory analyzing_state \<and>
    currentEmotion (startAnalysis (render_of (stopAnalysis analyzing_state)) (Granted 8) Denied 50
      (draws_all 0) (stopAnalysis analyzing_state)) = currentEmotion analyzing_state \<and>
    emotionHistory (startAnalysis (render_of (stopAnalysis analyzing_state)) (Granted 8) Denied 50
      (draws_all 0) (stopAnalysis analyzing_state)) = emotionHistory analyzing_state \<and>
    stressLevel (startAnalysis (render_of (stopAnalysis analyzing_state)) (Granted 8) Denied 50
      (draws_all 0) (stopAnalysis analyzing_state)) = stressLevel analyzing_state"
    by blast
  from stop_keeps_data_model [where s = empty_label_state and st = 8 and st' = 9
      and now = 9000 and d = "draws_all (1/2)"] pre'
  have seeded: "emotionHistory (startAnalysis (render_of (stopAnalysis empty_label_state))
      (Granted 8) (Granted 9) 9000 (draws_all (1/2)) (stopAnalysis empty_label_state)) =
     [\<lparr>emotion = ''neutral'', timestamp = 9000, score = 0.8\<rparr>] \<and>
    stressLevel (startAnalysis (render_of (stopAnalysis empty_label_state))
      (Granted 8) (Granted 9) 9000 (draws_all (1/2)) (stopAnalysis empty_label_state)) =
     band_draw (spec_stress_band ''neutral'') (stressDraw (draws_all (1/2)))"
    by blast
  have val: "band_draw (spec_stress_band ''neutral'') (stressDraw (draws_all (1/2))) = 30"
    by (simp add: band_draw_def spec_stress_band_def draws_all_fields random_floor_def
        random_of.rep_eq)
  from kept seeded pre pre' show ?thesis
    by (simp add: analyzing_state_fields val)
qed

subsection \<open>The forced update\<close>

lemma random_pick_index:
  assumes "xs \<noteq> []"
  shows "nat (random_floor r (int (length xs))) < length xs"
proof -
  have "0 < int (length xs)" using assms by simp
  from random_floor_bounds [OF this, of r] show ?thesis by linarith
qed

lemma random_pick_member: "xs \<noteq> [] \<Longrightarrow> random_pick r xs \<in> set xs"
  by (simp add: random_pick_def random_pick_index)

lemma random_score_bounds: "0.7 \<le> random_score r" "random_score r < 1"
  using Rep_math_random_bounds [of r] by (simp_all add: random_score_def)






lemma forceEmotionUpdate_in_bands:
  assumes "renderAnalyzing r"
  shows "in_band (stressLevel (forceEmotionUpdate r tnow d s))
           (spec_stress_band (random_pick (pickDraw d) forceDummyEmotions))"
    "in_band (engagementLevel (forceEmotionUpdate r tnow d s))
           (spec_engagement_band (random_pick (pickDraw d) forceDummyEmotions))"
    "in_band (focusLevel (forceEmotionUpdate r tnow d s))
           (code_focus_band (random_pick (pickDraw d) forceDummyEmotions))"
  using assms
  by (simp_all add: forceEmotionUpdate_def Let_def stress_in_band engagement_in_band
      focus_in_band)



subsection \<open>The classifier fails\<close>

lemma processVideoFrame_begin_awaiting:
  assumes "snd (processVideoFrame_begin r now s) = Awaiting"
  shows "processVideoFrame_begin r now s =
           (s\<lparr>isProcessing := True, abortControllerRef := Some False, lastDetectionTime := now,
              lastApiCallTimeRef := now, timerCount := 3\<rparr>, Awaiting)"
  using assms
  by (simp add: processVideoFrame_begin_def Let_def split: if_splits)

lemma resume_rejected_fields:
  "currentEmotion (processVideoFrame_resume ApiRejected tnow d s) =
     Some (random_pick (pickDraw d) catchDummyEmotions)"
  "emotionHistory (processVideoFrame_resume ApiRejected tnow d s) =
     appendHistory \<lparr>emotion = random_pick (pickDraw d) catchDummyEmotions, timestamp = tnow,
                    score = random_score (scoreDraw d)\<rparr> (emotionHistory s)"
  "stressLevel (processVideoFrame_resume ApiRejected tnow d s) =
     band_draw (spec_stress_band (random_pick (pickDraw d) catchDummyEmotions)) (stressDraw d)"
  "engagementLevel (processVideoFrame_resume ApiRejected tnow d s) =
     band_draw (spec_engagement_band (random_pick (pickDraw d) catchDummyEmotions))
       (engagementDraw d)"
  "focusLevel (processVideoFrame_resume ApiRejected tnow d s) =
     band_draw (code_focus_band (random_pick (pickDraw d) catchDummyEmotions)) (focusDraw d)"
  "toasts (processVideoFrame_resume ApiRejected tnow d s) =
     toasts s @ [ToastError ''Error analyzing emotion. Using simulated data.'']"
  "\<not> isProcessing (processVideoFrame_resume ApiRejected tnow d s)"
  "abortControllerRef (processVideoFrame_resume ApiRejected tnow d s) = None"
  "showEmotionPopup (processVideoFrame_resume ApiRejected tnow d s) = showEmotionPopup s"
  "popupEmotion (processVideoFrame_resume ApiRejected tnow d s) = popupEmotion s"
  "popupTimeoutRef (processVideoFrame_resume ApiRejected tnow d s) = popupTimeoutRef s"
  "timers (processVideoFrame_resume ApiRejected tnow d s) = timers s"
  by (simp_all add: processVideoFrame_resume_def processVideoFrame_finally_def Let_def
      metric_values)
    (simp_all add: updateMetricsBasedOnEmotion_def)

lemma resume_rejected_in_bands:
  "in_band (stressLevel (processVideoFrame_resume ApiRejected tnow d s))
     (spec_stress_band (random_pick (pickDraw d) catchDummyEmotions))"
  "in_band (engagementLevel (processVideoFrame_resume ApiRejected tnow d s))
     (spec_engagement_band (random_pick (pickDraw d) catchDummyEmotions))"
  "in_band (focusLevel (processVideoFrame_resume ApiRejected tnow d s))
     (code_focus_band (random_pick (pickDraw d) catchDummyEmotions))"
  by (simp_all add: processVideoFrame_resume_def processVideoFrame_finally_def Let_def
      stress_in_band engagement_in_band focus_in_band)

lemma catch_labels_among_force_labels: "set catchDummyEmotions \<subseteq> set forceDummyEmotions"
  by (simp add: catchDummyEmotions_def forceDummyEmotions_def)

lemma catch_pick_member: "random_pick x catchDummyEmotions \<in> set catchDummyEmotions"
  by (rule random_pick_member) (simp add: catchDummyEmotions_def)

lemma catch_pick_never_bored: "random_pick x catchDummyEmotions \<noteq> ''bored''"
  using catch_pick_member [of x] by (auto simp: catchDummyEmotions_def)

text \<open>
  C6: when a call of \<open>processVideoFrame\<close> reaches the classifier and the classifier
  fails, the call still ends normally (its promise is fulfilled); an event is recorded
  whose label is one of the seven fallback labels and whose confidence lies in
  \<open>[0.7, 1)\<close>; the current emotion is that label, the history has the event appended,
  and each of the three metrics is its draw's pick in the band of that label, so lies in
  that band; the one notification is the warning; the processing flag is cleared and the
  token is null.
\<close>

theorem classifier_failure_falls_back:
  assumes "snd (processVideoFrame_begin r now s) = Awaiting"
  shows "snd (processVideoFrame r now ApiRejected tnow d s) = Fulfilled \<and>
     currentEmotion (fst (processVideoFrame r now ApiRejected tnow d s)) =
       Some (random_pick (pickDraw d) catchDummyEmotions) \<and>
     random_pick (pickDraw d) catchDummyEmotions \<in> set forceDummyEmotions \<and>
     emotionHistory (fst (processVideoFrame r now ApiRejected tnow d s)) =
       appendHistory \<lparr>emotion = random_pick (pickDraw d) catchDummyEmotions, timestamp = tnow,
                      score = random_score (scoreDraw d)\<rparr> (emotionHistory s) \<and>
     0.7 \<le> random_score (scoreDraw d) \<and> random_score (scoreDraw d) < 1 \<and>
     stressLevel (fst (processVideoFrame r now ApiRejected tnow d s)) =
       band_draw (spec_stress_band (random_pick (pickDraw d) catchDummyEmotions))
         (stressDraw d) \<and>
     engagementLevel (fst (processVideoFrame r now ApiRejected tnow d s)) =
       band_draw (spec_engagement_band (random_pick (pickDraw d) catchDummyEmotions))
         (engagementDraw d) \<and>
     focusLevel (fst (processVideoFrame r now ApiRejected tnow d s)) =
       band_draw (code_focus_band (random_pick (pickDraw d) catchDummyEmotions))
         (focusDraw d) \<and>
     in_band (stressLevel (fst (processVideoFrame r now ApiRejected tnow d s)))
       (spec_stress_band (random_pick (pickDraw d) catchDummyEmotions)) \<and>
     in_band (engagementLevel (fst (processVideoFrame r now ApiRejected tnow d s)))
       (spec_engagement_band (random_pick (pickDraw d) catchDummyEmotions)) \<and>
     in_band (focusLevel (fst (processVideoFrame r now ApiRejected tnow d s)))
       (code_focus_band (random_pick (pickDraw d) catchDummyEmotions)) \<and>
     toasts (fst (processVideoFrame r now ApiRejected tnow d s)) =
       toasts s @ [ToastError ''Error analyzing emotion. Using simulated data.''] \<and>
     \<not> isProcessing (fst (processVideoFrame r now ApiRejected tnow d s)) \<and>
     abortControllerRef (fst (processVideoFrame r now ApiRejected tnow d s)) = None"
proof -
  let ?s1 = "s\<lparr>isProcessing := True, abortControllerRef := Some False, lastDetectionTime := now,
              lastApiCallTimeRef := now, timerCount := 3\<rparr>"
  have run: "processVideoFrame r now ApiRejected tnow d s =
      (processVideoFrame_resume ApiRejected tnow d ?s1, Fulfilled)"
    by (simp add: processVideoFrame_def processVideoFrame_begin_awaiting [OF assms])
  have mem: "random_pick (pickDraw d) catchDummyEmotions \<in> set forceDummyEmotions"
    using catch_pick_member catch_labels_among_force_labels by blast
  show ?thesis
    using mem random_score_bounds [of "scoreDraw d"]
    by (simp add: run resume_rejected_fields band_draw_in_bands)
qed

theorem classifier_failure_falls_back_witness:
  "snd (processVideoFrame_begin (render_of analyzing_state) 5000 analyzing_state) = Awaiting \<and>
   currentEmotion (fst (processVideoFrame (render_of analyzing_state) 5000 ApiRejected 5200
      (draws_all (1/2)) analyzing_state)) = Some ''confused'' \<and>
   emotionHistory (fst (processVideoFrame (render_of analyzing_state) 5000 ApiRejected 5200
      (draws_all (1/2)) analyzing_state)) =
     [\<lparr>emotion = ''neutral'', timestamp = 0, score = 0.8\<rparr>,
      \<lparr>emotion = ''confused'', timestamp = 5200, score = 0.85\<rparr>] \<and>
   stressLevel (fst (processVideoFrame (render_of analyzing_state) 5000 ApiRejected 5200
      (draws_all (1/2)) analyzing_state)) = 62 \<and>
   engagementLevel (fst (processVideoFrame (render_of analyzing_state) 5000 ApiRejected 5200
      (draws_all (1/2)) analyzing_state)) = 50 \<and>
   focusLevel (fst (processVideoFrame (render_of analyzing_state) 5000 ApiRejected 5200
      (draws_all (1/2)) analyzing_state)) = 45 \<and>
   toasts (fst (processVideoFrame (render_of analyzing_state) 5000 ApiRejected 5200
      (draws_all (1/2)) analyzing_state)) =
     [ToastError ''Error analyzing emotion. Using simulated data.''] \<and>
   \<not> isProcessing (fst (processVideoFrame (render_of analyzing_state) 5000 ApiRejected 5200
      (draws_all (1/2)) analyzing_state))"
proof -
  have pre: "snd (processVideoFrame_begin (render_of analyzing_state) 5000 analyzing_state)
      = Awaiting"
    by (simp add: processVideoFrame_begin_def analyzing_state_fields render_of_fields Let_def)
  have pick: "random_pick (random_of (1/2)) catchDummyEmotions = ''confused''"
    by (simp add: random_pick_def random_floor_def random_of.rep_eq catchDummyEmotions_def)
  have vals: "band_draw (spec_stress_band ''confused'') (random_of (1/2)) = 62"
    "band_draw (spec_engagement_band ''confused'') (random_of (1/2)) = 50"
    "band_draw (code_focus_band ''confused'') (random_of (1/2)) = 45"
    by (simp_all add: band_draw_def spec_stress_band_def spec_engagement_band_def
        code_focus_band_def spec_focus_band_def random_floor_def random_of.rep_eq)
  from classifier_failure_falls_back [OF pre, of 5200 "draws_all (1/2)"] pre
  show ?thesis
    by (simp add: analyzing_state_fields draws_all_fields pick vals random_score_def
        random_of.rep_eq appendHistory_def slice_last_def)
qed

subsection \<open>The support popup\<close>

lemma showPopup_fields:
  "showEmotionPopup (showEmotionalSupportPopup e now s)"
  "popupEmotion (showEmotionalSupportPopup e now s) = Some e"
  "popupTimeoutRef (showEmotionalSupportPopup e now s) = Some (nextHandle s)"
  "nextHandle (showEmotionalSupportPopup e now s) = nextHandle s + 1"
  "timers (showEmotionalSupportPopup e now s) =
     (case popupTimeoutRef s of None \<Rightarrow> timers s
      | Some h0 \<Rightarrow> filter (\<lambda>(h', task, due). h' \<noteq> h0) (timers s))
     @ [(nextHandle s, PopupHide, now + 8000)]"
  by (simp_all add: showEmotionalSupportPopup_def setTimer_def clearTimer_def Let_def
      split: option.splits)

lemma showPopup_popup_timers:
  assumes "popup_timers_tracked s"
  shows "popup_timers (showEmotionalSupportPopup e now s) = [(nextHandle s, PopupHide, now + 8000)]"
proof (cases "popupTimeoutRef s")
  case None
  with assms have "popup_timers s = []"
    by (cases "popup_timers s") (auto simp: popup_timers_tracked_def)
  with None show ?thesis by (simp add: popup_timers_def showPopup_fields)
next
  case (Some h0)
  with assms have "\<forall>x \<in> set (timers s). fst (snd x) = PopupHide \<longrightarrow> fst x = h0"
    by (fastforce simp: popup_timers_tracked_def popup_timers_def list_all_iff)
  then have "filter (\<lambda>(h, task, due). task = PopupHide)
      (filter (\<lambda>(h', task, due). h' \<noteq> h0) (timers s)) = []"
    by (auto simp: filter_empty_conv)
  with Some show ?thesis by (simp add: popup_timers_def showPopup_fields)
qed

lemma showPopup_tracked:
  "popup_timers_tracked s \<Longrightarrow> popup_timers_tracked (showEmotionalSupportPopup e now s)"
  by (simp add: popup_timers_tracked_def [of "showEmotionalSupportPopup e now s"]
      showPopup_popup_timers showPopup_fields)

lemma timerDue_popup:
  "timerDue h PopupHide now s \<longleftrightarrow>
     list_ex (\<lambda>(h', task, due). h' = h \<and> due \<le> now) (popup_timers s)"
  by (auto simp: timerDue_def popup_timers_def list_ex_iff)

lemma firePopupTimeout_hides:
  assumes "firePopupTimeout h now s = Some s'"
  shows "\<not> showEmotionPopup s'" and "popupTimeoutRef s' = None"
    and "popup_timers s' = filter (\<lambda>(h', task, due). h' \<noteq> h) (popup_timers s)"
proof -
  from assms have s': "s' = popupTimeoutCallback (clearTimer h s)"
    by (simp add: firePopupTimeout_def split: if_splits)
  show "\<not> showEmotionPopup s'" and "popupTimeoutRef s' = None"
    by (simp_all add: s' popupTimeoutCallback_def)
  show "popup_timers s' = filter (\<lambda>(h', task, due). h' \<noteq> h) (popup_timers s)"
    by (simp add: s' popupTimeoutCallback_def clearTimer_def popup_timers_def conj_commute)
qed

text \<open>
  C4: in a state whose pending auto-dismiss, if any, is the one the ref names, let the
  popup be triggered for \<open>''stressed''\<close> at \<open>t1\<close> and for \<open>''sad''\<close> at \<open>t2\<close>, less than
  8000 ms later. At \<open>t2\<close> the first auto-dismiss has not run; the second trigger cancels
  it (no timer with its handle is left); the popup is visible and shows \<open>''sad''\<close>;
  exactly one auto-dismiss is pending, due at \<open>t2 + 8000\<close>; it can run at a time \<open>now\<close>
  exactly when \<open>t2 + 8000 \<le> now\<close>, so not at \<open>t1 + 8000\<close> when \<open>t1 < t2\<close>; and when it
  runs the popup is hidden and no auto-dismiss is left.
\<close>

theorem retrigger_restarts_auto_dismiss:
  assumes "popup_timers_tracked s" and "t1 \<le> t2" and "t2 < t1 + 8000"
  shows "let s1 = showEmotionalSupportPopup ''stressed'' t1 s;
             s2 = showEmotionalSupportPopup ''sad'' t2 s1
         in popup_timers s1 = [(nextHandle s, PopupHide, t1 + 8000)] \<and>
            (\<forall>h. firePopupTimeout h t2 s1 = None) \<and>
            showEmotionPopup s2 \<and> popupEmotion s2 = Some ''sad'' \<and>
            popup_timers s2 = [(nextHandle s + 1, PopupHide, t2 + 8000)] \<and>
            \<not> list_ex (\<lambda>(h, task, due). h = nextHandle s) (timers s2) \<and>
            (\<forall>h now. firePopupTimeout h now s2 \<noteq> None \<longleftrightarrow>
               h = nextHandle s + 1 \<and> t2 + 8000 \<le> now) \<and>
            (\<forall>h. t1 < t2 \<longrightarrow> firePopupTimeout h (t1 + 8000) s2 = None) \<and>
            (\<forall>h now s3. firePopupTimeout h now s2 = Some s3 \<longrightarrow>
               \<not> showEmotionPopup s3 \<and> popup_timers s3 = [])"
proof -
  define s1 where "s1 = showEmotionalSupportPopup ''stressed'' t1 s"
  define s2 where "s2 = showEmotionalSupportPopup ''sad'' t2 s1"
  have p1: "popup_timers s1 = [(nextHandle s, PopupHide, t1 + 8000)]"
    unfolding s1_def using assms(1) by (rule showPopup_popup_timers)
  have tr1: "popup_timers_tracked s1"
    unfolding s1_def using assms(1) by (rule showPopup_tracked)
  have nh1: "nextHandle s1 = nextHandle s + 1" and ref1: "popupTimeoutRef s1 = Some (nextHandle s)"
    by (simp_all add: s1_def showPopup_fields)
  have notyet: "firePopupTimeout h t2 s1 = None" for h
    using assms(3) by (simp add: firePopupTimeout_def timerDue_popup p1)
  have p2: "popup_timers s2 = [(nextHandle s + 1, PopupHide, t2 + 8000)]"
    unfolding s2_def using showPopup_popup_timers [OF tr1, of "''sad''" t2] by (simp add: nh1)
  have shown: "showEmotionPopup s2" "popupEmotion s2 = Some ''sad''"
    by (simp_all add: s2_def showPopup_fields)
  have cancelled: "\<not> list_ex (\<lambda>(h, task, due). h = nextHandle s) (timers s2)"
    by (auto simp: s2_def showPopup_fields ref1 nh1 list_ex_iff)
  have fire: "firePopupTimeout h now s2 \<noteq> None \<longleftrightarrow> h = nextHandle s + 1 \<and> t2 + 8000 \<le> now"
    for h now
    by (auto simp: firePopupTimeout_def timerDue_popup p2)
  have early: "firePopupTimeout h (t1 + 8000) s2 = None" if "t1 < t2" for h
    using fire [of h "t1 + 8000"] that by auto
  have hidden: "\<not> showEmotionPopup s3 \<and> popup_timers s3 = []"
    if "firePopupTimeout h now s2 = Some s3" for h now s3
  proof -
    from that fire [of h now] have h: "h = nextHandle s + 1" by auto
    from firePopupTimeout_hides [OF that] show ?thesis by (simp add: p2 h)
  qed
  from p1 notyet shown p2 cancelled fire early hidden
  show ?thesis unfolding Let_def s1_def [symmetric] s2_def [symmetric] by blast
qed

theorem retrigger_restarts_auto_dismiss_witness:
  "popup_timers_tracked analyzing_state \<and> (1000::int) \<le> 5000 \<and> (5000::int) < 1000 + 8000 \<and>
   popupEmotion (showEmotionalSupportPopup ''sad'' 5000
      (showEmotionalSupportPopup ''stressed'' 1000 analyzing_state)) = Some ''sad'' \<and>
   popup_timers (showEmotionalSupportPopup ''sad'' 5000
      (showEmotionalSupportPopup ''stressed'' 1000 analyzing_state)) = [(4, PopupHide, 13000)] \<and>
   firePopupTimeout 4 9000 (showEmotionalSupportPopup ''sad'' 5000
      (showEmotionalSupportPopup ''stressed'' 1000 analyzing_state)) = None \<and>
   firePopupTimeout 4 13000 (showEmotionalSupportPopup ''sad'' 5000
      (showEmotionalSupportPopup ''stressed'' 1000 analyzing_state)) \<noteq> None"
proof -
  have pre: "popup_timers_tracked analyzing_state"
    by (simp add: popup_timers_tracked_def popup_timers_def analyzing_state_fields)
  have times: "(1000::int) \<le> 5000" "(5000::int) < 1000 + 8000" by simp_all
  from retrigger_restarts_auto_dismiss [OF pre times] pre
  show ?thesis by (simp add: Let_def analyzing_state_fields)
qed


lemma resume_resolved_popup:
  assumes "e = ''stressed'' \<or> e = ''sad''"
  shows "showEmotionPopup (processVideoFrame_resume (ApiResolved e c) tnow d s)"
    and "popupEmotion (processVideoFrame_resume (ApiResolved e c) tnow d s) = Some e"
    and "popupTimeoutRef (processVideoFrame_resume (ApiResolved e c) tnow d s) =
           Some (nextHandle s)"
    and "(nextHandle s, PopupHide, tnow + 8000) \<in>
           set (timers (processVideoFrame_resume (ApiResolved e c) tnow d s))"
  using assms
  by (auto simp: processVideoFrame_resume_def processVideoFrame_finally_def Let_def
      showPopup_fields updateMetricsBasedOnEmotion_def)

lemma forceEmotionUpdate_popup:
  "showEmotionPopup (forceEmotionUpdate r tnow d s) = showEmotionPopup s"
  "popupEmotion (forceEmotionUpdate r tnow d s) = popupEmotion s"
  "popupTimeoutRef (forceEmotionUpdate r tnow d s) = popupTimeoutRef s"
  "timers (forceEmotionUpdate r tnow d s) = timers s"
  by (simp_all add: forceEmotionUpdate_def updateMetricsBasedOnEmotion_def Let_def)

text \<open>
  C3, as the claim states it, fails: an event recorded by the \<^verbatim>\<open>catch\<close> path or by
  \<open>forceEmotionUpdate\<close> with the label \<open>''stressed''\<close> leaves the popup hidden. Neither
  of the two calls \<open>showEmotionalSupportPopup\<close>.
\<close>

theorem simulated_stressed_event_shows_no_popup:
  "snd (processVideoFrame_begin (render_of analyzing_state) 5000 analyzing_state) = Awaiting \<and>
   currentEmotion (fst (processVideoFrame (render_of analyzing_state) 5000 ApiRejected 5200
      (draws_all (5/6)) analyzing_state)) = Some ''stressed'' \<and>
   emotion (last (emotionHistory (fst (processVideoFrame (render_of analyzing_state) 5000
      ApiRejected 5200 (draws_all (5/6)) analyzing_state)))) = ''stressed'' \<and>
   \<not> showEmotionPopup (fst (processVideoFrame (render_of analyzing_state) 5000 ApiRejected 5200
      (draws_all (5/6)) analyzing_state)) \<and>
   popupEmotion (fst (processVideoFrame (render_of analyzing_state) 5000 ApiRejected 5200
      (draws_all (5/6)) analyzing_state)) = None \<and>
   currentEmotion (forceEmotionUpdate (render_of analyzing_state) 5200 (draws_all (5/7))
      analyzing_state) = Some ''stressed'' \<and>
   emotion (last (emotionHistory (forceEmotionUpdate (render_of analyzing_state) 5200
      (draws_all (5/7)) analyzing_state))) = ''stressed'' \<and>
   \<not> showEmotionPopup (forceEmotionUpdate (render_of analyzing_state) 5200 (draws_all (5/7))
      analyzing_state) \<and>
   popupEmotion (forceEmotionUpdate (render_of analyzing_state) 5200 (draws_all (5/7))
      analyzing_state) = None"
proof -
  let ?r = "render_of analyzing_state"
  have pre: "snd (processVideoFrame_begin ?r 5000 analyzing_state) = Awaiting"
    by (simp add: processVideoFrame_begin_def analyzing_state_fields render_of_fields Let_def)
  have run: "fst (processVideoFrame ?r 5000 ApiRejected 5200 (draws_all (5/6)) analyzing_state) =
      processVideoFrame_resume ApiRejected 5200 (draws_all (5/6))
        (analyzing_state\<lparr>isProcessing := True, abortControllerRef := Some False,
           lastDetectionTime := 5000, lastApiCallTimeRef := 5000, timerCount := 3\<rparr>)"
    by (simp add: processVideoFrame_def processVideoFrame_begin_awaiting [OF pre])
  have pick6: "random_pick (random_of (5/6)) catchDummyEmotions = ''stressed''"
    by (simp add: random_pick_def random_floor_def random_of.rep_eq catchDummyEmotions_def)
  have pick7: "random_pick (random_of (5/7)) forceDummyEmotions = ''stressed''"
    by (simp add: random_pick_def random_floor_def random_of.rep_eq forceDummyEmotions_def)
  have force: "currentEmotion (forceEmotionUpdate ?r 5200 (draws_all (5/7)) analyzing_state) =
        Some ''stressed''"
      "emotion (last (emotionHistory (forceEmotionUpdate ?r 5200 (draws_all (5/7))
         analyzing_state))) = ''stressed''"
    by (simp_all add: forceEmotionUpdate_def Let_def analyzing_state_fields draws_all_fields
        render_of_fields pick7 updateMetricsBasedOnEmotion_def appendHistory_def slice_last_def)
  show ?thesis
    by (simp add: pre run resume_rejected_fields forceEmotionUpdate_popup force
        analyzing_state_fields draws_all_fields pick6 appendHistory_def slice_last_def)
qed

text \<open>
  C3, amended: for every event recorded by the success path of \<open>processVideoFrame\<close>, if
  its emotion is \<open>''stressed''\<close> or \<open>''sad''\<close> then the popup is visible afterwards, shows
  that emotion, and has an auto-dismiss pending 8000 ms later. The \<^verbatim>\<open>catch\<close> path and
  \<open>forceEmotionUpdate\<close> leave the popup, its emotion, its timeout ref and the pending
  timers as they were.
\<close>

theorem popup_shown_on_detected_trigger:
  "(e = ''stressed'' \<or> e = ''sad'' \<longrightarrow>
      showEmotionPopup (processVideoFrame_resume (ApiResolved e c) tnow d s) \<and>
      popupEmotion (processVideoFrame_resume (ApiResolved e c) tnow d s) = Some e \<and>
      popupTimeoutRef (processVideoFrame_resume (ApiResolved e c) tnow d s) = Some (nextHandle s) \<and>
      (nextHandle s, PopupHide, tnow + 8000) \<in>
        set (timers (processVideoFrame_resume (ApiResolved e c) tnow d s))) \<and>
   showEmotionPopup (processVideoFrame_resume ApiRejected tnow d s) = showEmotionPopup s \<and>
   popupEmotion (processVideoFrame_resume ApiRejected tnow d s) = popupEmotion s \<and>
   popupTimeoutRef (processVideoFrame_resume ApiRejected tnow d s) = popupTimeoutRef s \<and>
   timers (processVideoFrame_resume ApiRejected tnow d s) = timers s \<and>
   showEmotionPopup (forceEmotionUpdate r tnow d s) = showEmotionPopup s \<and>
   popupEmotion (forceEmotionUpdate r tnow d s) = popupEmotion s \<and>
   popupTimeoutRef (forceEmotionUpdate r tnow d s) = popupTimeoutRef s \<and>
   timers (forceEmotionUpdate r tnow d s) = timers s"
  using resume_resolved_popup [where e = e and c = c and tnow = tnow and d = d and s = s]
  by (simp add: resume_rejected_fields forceEmotionUpdate_popup)

theorem popup_shown_on_detected_trigger_witness:
  "\<not> showEmotionPopup analyzing_state \<and>
   showEmotionPopup (processVideoFrame_resume (ApiResolved ''sad'' (9/10)) 5200 (draws_all 0)
      analyzing_state) \<and>
   popupEmotion (processVideoFrame_resume (ApiResolved ''sad'' (9/10)) 5200 (draws_all 0)
      analyzing_state) = Some ''sad'' \<and>
   (3, PopupHide, 13200) \<in> set (timers (processVideoFrame_resume (ApiResolved ''sad'' (9/10)) 5200
      (draws_all 0) analyzing_state))"
  using popup_shown_on_detected_trigger [where e = "''sad''" and c = "9/10" and tnow = 5200
      and d = "draws_all 0" and s = analyzing_state]
  by (simp add: analyzing_state_fields)

subsection \<open>The idle session\<close>

lemma tick_timers_tracked_iff:
  "tick_timers_tracked s \<longleftrightarrow>
     (\<forall>h task due. (h, task, due) \<in> set (timers s) \<longrightarrow> isTick task \<longrightarrow>
        timerIntervalRef s = Some h)"
  by (auto simp: tick_timers_tracked_def tick_timers_def list_all_iff)

lemma tracked_subset:
  assumes "tick_timers_tracked s" and "timerIntervalRef s' = timerIntervalRef s"
    and "\<And>h task due. (h, task, due) \<in> set (timers s') \<Longrightarrow> isTick task \<Longrightarrow>
           \<exists>due'. (h, task, due') \<in> set (timers s)"
  shows "tick_timers_tracked s'"
  using assms unfolding tick_timers_tracked_iff by metis

lemma invariant_same:
  assumes "session_invariant s" and "isAnalyzing s' = isAnalyzing s"
    and "timerIntervalRef s' = timerIntervalRef s"
    and "\<And>h task due. (h, task, due) \<in> set (timers s') \<Longrightarrow> isTick task \<Longrightarrow>
           \<exists>due'. (h, task, due') \<in> set (timers s)"
  shows "session_invariant s'"
  using assms tracked_subset [of s s'] unfolding session_invariant_def by auto

lemma invariant_initial: "session_invariant initial_state"
  by (simp add: session_invariant_def tick_timers_tracked_def tick_timers_def initial_state_def)

lemma no_tick_when_ref_null:
  assumes "tick_timers_tracked s" and "timerIntervalRef s = None"
  shows "tick_timers s = []"
  using assms by (cases "tick_timers s") (auto simp: tick_timers_tracked_def)

lemma begin_fields:
  "isAnalyzing (fst (processVideoFrame_begin r now s)) = isAnalyzing s"
  "timerIntervalRef (fst (processVideoFrame_begin r now s)) = timerIntervalRef s"
  "timers (fst (processVideoFrame_begin r now s)) = timers s"
  by (simp_all add: processVideoFrame_begin_def processVideoFrame_finally_def Let_def)

lemma invariant_begin:
  "session_invariant s \<Longrightarrow> session_invariant (fst (processVideoFrame_begin r now s))"
  by (rule invariant_same [of s]) (auto simp: begin_fields)

lemma resume_fields:
  "isAnalyzing (processVideoFrame_resume res tnow d s) = isAnalyzing s"
  "timerIntervalRef (processVideoFrame_resume res tnow d s) = timerIntervalRef s"
  "(h, task, due) \<in> set (timers (processVideoFrame_resume res tnow d s)) \<Longrightarrow> isTick task \<Longrightarrow>
     (h, task, due) \<in> set (timers s)"
  by (auto simp: processVideoFrame_resume_def processVideoFrame_finally_def Let_def
      updateMetricsBasedOnEmotion_def showPopup_fields showPopup_frame
      showEmotionalSupportPopup_def setTimer_def clearTimer_def
      split: classifier_result.splits option.splits if_splits)

lemma invariant_resume:
  "session_invariant s \<Longrightarrow> session_invariant (processVideoFrame_resume res tnow d s)"
  by (rule invariant_same [of s])
    (use resume_fields [where res = res and tnow = tnow and d = d and s = s] in auto)

lemma camera_begin_fields:
  "isAnalyzing (requestCameraPermission_begin s) = isAnalyzing s"
  "timerIntervalRef (requestCameraPermission_begin s) = timerIntervalRef s"
  "timers (requestCameraPermission_begin s) = timers s"
  by (simp_all add: requestCameraPermission_begin_def releaseStream_def resetVideo_def
      split: option.splits)

lemma camera_settle_fields:
  "isAnalyzing (snd (requestCameraPermission_settle res s)) = isAnalyzing s"
  "timerIntervalRef (snd (requestCameraPermission_settle res s)) = timerIntervalRef s"
  "timers (snd (requestCameraPermission_settle res s)) = timers s"
  by (simp_all add: requestCameraPermission_settle_def split: media_result.splits)

lemma release_fields:
  "isAnalyzing (startAnalysis_release s) = isAnalyzing s"
  "timerIntervalRef (startAnalysis_release s) = timerIntervalRef s"
  "timers (startAnalysis_release s) = timers s"
  by (simp_all add: startAnalysis_release_def releaseStream_def resetVideo_def
      split: option.splits)

lemma mic_fields:
  "isAnalyzing (snd (requestMicPermission res s)) = isAnalyzing s"
  "timerIntervalRef (snd (requestMicPermission res s)) = timerIntervalRef s"
  "timers (snd (requestMicPermission res s)) = timers s"
  by (simp_all add: requestMicPermission_def split: media_result.splits)

lemma invariant_start_release:
  "session_invariant s \<Longrightarrow>
   session_invariant (requestCameraPermission_begin (startAnalysis_release s))"
  by (rule invariant_same [of s]) (auto simp: camera_begin_fields release_fields)

lemma invariant_camera:
  "session_invariant s \<Longrightarrow> session_invariant (snd (requestCameraPermission_settle res s))"
  by (rule invariant_same [of s]) (auto simp: camera_settle_fields)

lemma invariant_mic: "session_invariant s \<Longrightarrow> session_invariant (snd (requestMicPermission res s))"
  by (rule invariant_same [of s]) (auto simp: mic_fields)

lemma invariant_proceed:
  assumes "session_invariant s"
  shows "session_invariant (startAnalysis_proceed hasCamera hasMic r now d s)"
proof (cases "hasCamera \<and> hasMic")
  case False
  then have "startAnalysis_proceed hasCamera hasMic r now d s =
      s\<lparr>toasts := toasts s @ [ToastError
             ''Both camera and microphone access are required for emotion detection'']\<rparr>"
    by (auto simp: startAnalysis_proceed_def)
  then show ?thesis using assms
    by (simp add: session_invariant_def tick_timers_tracked_def tick_timers_def)
next
  case True
  show ?thesis
  proof (cases "timerIntervalRef s")
    case None
    with assms have "tick_timers s = []"
      by (simp add: session_invariant_def no_tick_when_ref_null)
    with None True show ?thesis
      by (simp add: session_invariant_def tick_timers_tracked_def tick_timers_def
          startAnalysis_proceed_def setTimer_def Let_def updateMetricsBasedOnEmotion_def)
  next
    case (Some h)
    with assms True show ?thesis
      by (simp add: session_invariant_def tick_timers_tracked_def tick_timers_def
          startAnalysis_proceed_def setTimer_def Let_def updateMetricsBasedOnEmotion_def)
  qed
qed

lemma stop_no_tick:
  assumes "tick_timers_tracked s"
  shows "tick_timers (stopAnalysis s) = []"
proof (cases "timerIntervalRef s")
  case None
  with assms have "tick_timers s = []" by (simp add: no_tick_when_ref_null)
  with None show ?thesis by (simp add: stopAnalysis_eq tick_timers_def)
next
  case (Some h)
  with assms have "\<forall>x \<in> set (timers s). isTick (fst (snd x)) \<longrightarrow> fst x = h"
    by (fastforce simp: tick_timers_tracked_def tick_timers_def list_all_iff)
  then have "filter (\<lambda>(h, task, due). isTick task)
      (filter (\<lambda>(h', task, due). h' \<noteq> h) (timers s)) = []"
    by (auto simp: filter_empty_conv)
  with Some show ?thesis by (simp add: stopAnalysis_eq tick_timers_def)
qed

lemma invariant_stop:
  assumes "session_invariant s"
  shows "session_invariant (stopAnalysis s)"
  using assms stop_no_tick [of s]
  by (simp add: session_invariant_def tick_timers_tracked_def stop_fields)

lemma invariant_clearTimer: "session_invariant s \<Longrightarrow> session_invariant (clearTimer h s)"
  by (rule invariant_same [of s]) (auto simp: clearTimer_def)

lemma invariant_reschedule:
  "session_invariant s \<Longrightarrow> session_invariant (rescheduleInterval h now s)"
  by (rule invariant_same [of s]) (auto simp: rescheduleInterval_def split: if_splits)

lemma invariant_updateTimer: "session_invariant s \<Longrightarrow> session_invariant (updateTimer r now s)"
proof -
  assume inv: "session_invariant s"
  have count: "session_invariant (u\<lparr>timerCount := n\<rparr>)" if "session_invariant u" for u n
    using that by (rule invariant_same) auto
  show ?thesis
    using inv by (simp add: updateTimer_def count invariant_begin)
qed

lemma invariant_popupTimeout:
  "session_invariant s \<Longrightarrow> firePopupTimeout h now s = Some s' \<Longrightarrow> session_invariant s'"
  by (rule invariant_same [of s])
    (auto simp: firePopupTimeout_def popupTimeoutCallback_def clearTimer_def split: if_splits)

lemma invariant_unmount: "session_invariant s \<Longrightarrow> session_invariant (unmountCleanup s)"
  by (rule invariant_same [of s])
    (auto simp: unmountCleanup_def clearTimer_def Let_def split: option.splits)

lemma invariant_ui:
  "session_invariant s \<Longrightarrow> session_invariant (s\<lparr>videoRef := v, canvasRef := c\<rparr>)"
  "session_invariant s \<Longrightarrow> session_invariant (s\<lparr>showEmotionPopup := b\<rparr>)"
  "session_invariant s \<Longrightarrow> session_invariant (s\<lparr>showInfo := b\<rparr>)"
  by (simp_all add: session_invariant_def tick_timers_tracked_def tick_timers_def)

lemma invariant_step:
  assumes "session_invariant s" and "perform a s = Some s'"
  shows "session_invariant s'"
proof (cases a)
  case (AttachRefs video canvas)
  with assms(2) have "s' = s\<lparr>videoRef := (if video
      then Some (case videoRef s of None \<Rightarrow> None | Some src \<Rightarrow> src) else None),
      canvasRef := canvas\<rparr>"
    by simp
  then show ?thesis using assms(1) by (simp only: invariant_ui)
next
  case StartRelease
  with assms(2) have "s' = requestCameraPermission_begin (startAnalysis_release s)" by simp
  then show ?thesis using assms(1) by (simp only: invariant_start_release)
next
  case (CameraAnswer res)
  with assms(2) have "s' = snd (requestCameraPermission_settle res s)" by simp
  then show ?thesis using assms(1) by (simp only: invariant_camera)
next
  case (MicAnswer res)
  with assms(2) have "s' = snd (requestMicPermission res s)" by simp
  then show ?thesis using assms(1) by (simp only: invariant_mic)
next
  case (StartProceed hasCamera hasMic r now d)
  with assms(2) have "s' = startAnalysis_proceed hasCamera hasMic r now d s" by simp
  then show ?thesis using assms(1) by (simp only: invariant_proceed)
next
  case Stop
  with assms(2) have "s' = stopAnalysis s" by simp
  then show ?thesis using assms(1) by (simp only: invariant_stop)
next
  case (FrameResume res tnow d)
  with assms(2) have "s' = processVideoFrame_resume res tnow d s" by simp
  then show ?thesis using assms(1) by (simp only: invariant_resume)
next
  case (Tick h r now)
  with assms(2) have "s' = updateTimer r now (rescheduleInterval h now s)"
    by (simp split: if_splits)
  then show ?thesis using assms(1) by (simp only: invariant_updateTimer invariant_reschedule)
next
  case (FirstCaptureDue h r now)
  with assms(2) have "s' = fst (processVideoFrame_begin r now (clearTimer h s))"
    by (simp split: if_splits)
  then show ?thesis using assms(1) by (simp only: invariant_begin invariant_clearTimer)
next
  case (PopupTimeout h now)
  with assms(2) have "firePopupTimeout h now s = Some s'" by simp
  with assms(1) show ?thesis by (rule invariant_popupTimeout)
next
  case (SetShowEmotionPopup b)
  with assms(2) have "s' = s\<lparr>showEmotionPopup := b\<rparr>" by simp
  then show ?thesis using assms(1) by (simp only: invariant_ui)
next
  case (SetShowInfo b)
  with assms(2) have "s' = s\<lparr>showInfo := b\<rparr>" by simp
  then show ?thesis using assms(1) by (simp only: invariant_ui)
next
  case Unmount
  with assms(2) have "s' = unmountCleanup s" by simp
  then show ?thesis using assms(1) by (simp only: invariant_unmount)
qed

lemma reachable_invariant: "reachable s \<Longrightarrow> session_invariant s"
  by (induction rule: reachable.induct) (auto intro: invariant_initial invariant_step)

lemma idle_no_tick_timer:
  assumes "session_invariant s" and "\<not> isAnalyzing s"
  shows "timerIntervalRef s = None" and "tick_timers s = []"
proof -
  from assms show ref: "timerIntervalRef s = None"
    by (simp add: session_invariant_def)
  from assms(1) ref show "tick_timers s = []"
    by (simp add: session_invariant_def no_tick_when_ref_null)
qed

lemma stopAnalysis_stream:
  "mediaStreamRef s = Some st \<Longrightarrow> st \<notin> set (activeStreams (stopAnalysis s))"
  by (simp add: stopAnalysis_eq)

text \<open>A whole call of \<open>startAnalysis\<close> is a run of the transition system.\<close>

lemma reachable_startAnalysis:
  assumes "reachable s"
  shows "reachable (startAnalysis r cam mic now d s)"
proof -
  let ?s0 = "requestCameraPermission_begin (startAnalysis_release s)"
  let ?s1 = "snd (requestCameraPermission_settle cam ?s0)"
  let ?s2 = "if renderMicPermission r = Some True then ?s1 else snd (requestMicPermission mic ?s1)"
  have "perform StartRelease s = Some ?s0" by simp
  with assms have r0: "reachable ?s0" by (rule reachable_step)
  have "perform (CameraAnswer cam) ?s0 = Some ?s1" by simp
  with r0 have r1: "reachable ?s1" by (rule reachable_step)
  have "perform (MicAnswer mic) ?s1 = Some (snd (requestMicPermission mic ?s1))" by simp
  with r1 have "reachable (snd (requestMicPermission mic ?s1))" by (rule reachable_step)
  with r1 have r2: "reachable ?s2" by simp
  have run: "startAnalysis r cam mic now d s =
      startAnalysis_proceed (fst (requestCameraPermission_settle cam ?s0))
        (if renderMicPermission r = Some True then True else fst (requestMicPermission mic ?s1))
        r now d ?s2"
    by (simp add: startAnalysis_def requestCameraPermission_def split_beta)
  have "perform (StartProceed (fst (requestCameraPermission_settle cam ?s0))
        (if renderMicPermission r = Some True then True else fst (requestMicPermission mic ?s1))
        r now d) ?s2 = Some (startAnalysis r cam mic now d s)"
    by (simp only: run perform.simps)
  with r2 show ?thesis by (rule reachable_step)
qed

lemma mid_start_state_fields:
  "\<not> isAnalyzing mid_start_state" "mediaStreamRef mid_start_state = Some 1"
  "activeStreams mid_start_state = [1]" "videoRef mid_start_state = Some (Some 1)"
  by (simp_all add: mid_start_state_def requestCameraPermission_settle_def
      requestCameraPermission_begin_def startAnalysis_release_def releaseStream_def
      resetVideo_def initial_state_def)

lemma reachable_mid_start: "reachable mid_start_state"
proof -
  have "perform StartRelease initial_state =
      Some (requestCameraPermission_begin (startAnalysis_release initial_state))"
    by simp
  with reachable_initial
  have "reachable (requestCameraPermission_begin (startAnalysis_release initial_state))"
    by (rule reachable_step)
  moreover have "perform (CameraAnswer (Granted 1))
      (requestCameraPermission_begin (startAnalysis_release initial_state)) = Some mid_start_state"
    by (simp add: mid_start_state_def)
  ultimately show ?thesis by (rule reachable_step)
qed

text \<open>
  C8, as the claim states it, fails: in the middle of a start, when the camera has been
  granted and the microphone has not answered, the session is not analyzing and holds a
  live capture stream, which the video element shows.
\<close>

theorem stream_held_while_not_analyzing:
  "reachable mid_start_state \<and> \<not> isAnalyzing mid_start_state \<and>
   mediaStreamRef mid_start_state = Some 1 \<and> activeStreams mid_start_state = [1] \<and>
   videoRef mid_start_state = Some (Some 1)"
  by (simp add: reachable_mid_start mid_start_state_fields)

text \<open>
  C8, amended: in every reachable state, the states in the middle of a start included,
  \<open>isAnalyzing = False\<close> implies that the tick timer is stopped: the handle is null and
  no interval is pending. The capture stream and the in-flight token are null in the
  initial state and in the state \<open>stopAnalysis\<close> leaves, which is not analyzing and in
  which the stream's tracks are stopped and the video display is reset; in the middle of
  a start, once the camera is granted, the stream is held while \<open>isAnalyzing\<close> is still
  false.
\<close>

theorem idle_implies_timer_and_token_released:
  assumes "reachable s"
  shows "(\<not> isAnalyzing s \<longrightarrow> timerIntervalRef s = None \<and> tick_timers s = []) \<and>
         mediaStreamRef initial_state = None \<and> abortControllerRef initial_state = None \<and>
         \<not> isAnalyzing (stopAnalysis s) \<and> mediaStreamRef (stopAnalysis s) = None \<and>
         abortControllerRef (stopAnalysis s) = None \<and>
         (\<forall>st. mediaStreamRef s = Some st \<longrightarrow> st \<notin> set (activeStreams (stopAnalysis s))) \<and>
         (\<forall>src. videoRef (stopAnalysis s) \<noteq> Some (Some src)) \<and>
         reachable (stopAnalysis s) \<and>
         reachable mid_start_state \<and> \<not> isAnalyzing mid_start_state \<and>
         mediaStreamRef mid_start_state \<noteq> None"
proof -
  from assms have inv: "session_invariant s" by (rule reachable_invariant)
  have "perform Stop s = Some (stopAnalysis s)" by simp
  with assms have "reachable (stopAnalysis s)" by (rule reachable_step)
  moreover have "\<forall>src. videoRef (stopAnalysis s) \<noteq> Some (Some src)"
    by (cases "videoRef s") (simp_all add: stopAnalysis_eq)
  ultimately show ?thesis
    using idle_no_tick_timer [OF inv] stopAnalysis_stream [of s]
    by (simp add: stop_fields initial_state_def reachable_mid_start mid_start_state_fields)
qed

theorem idle_implies_timer_and_token_released_witness:
  "reachable mid_start_state \<and> \<not> isAnalyzing mid_start_state \<and>
   timerIntervalRef mid_start_state = None \<and> tick_timers mid_start_state = [] \<and>
   mediaStreamRef mid_start_state = Some 1 \<and>
   mediaStreamRef (stopAnalysis mid_start_state) = None \<and>
   abortControllerRef (stopAnalysis mid_start_state) = None \<and>
   1 \<notin> set (activeStreams (stopAnalysis mid_start_state))"
  using idle_implies_timer_and_token_released [OF reachable_mid_start]
  by (simp add: mid_start_state_fields)

subsection \<open>What the idle session may still hold\<close>

text \<open>A start whose camera is granted and whose microphone is denied ends not
  analyzing, with the camera stream still held and live.\<close>

lemma failed_start_keeps_stream:
  "\<not> isAnalyzing (startAnalysis (render_of initial_state) (Granted 1) Denied 0 (draws_all 0)
      initial_state)"
  "mediaStreamRef (startAnalysis (render_of initial_state) (Granted 1) Denied 0 (draws_all 0)
      initial_state) = Some 1"
  "activeStreams (startAnalysis (render_of initial_state) (Granted 1) Denied 0 (draws_all 0)
      initial_state) = [1]"
  by (simp_all add: startAnalysis_def startAnalysis_proceed_def requestMicPermission_def
      requestCameraPermission_def requestCameraPermission_settle_def
      requestCameraPermission_begin_def startAnalysis_release_def releaseStream_def
      resetVideo_def initial_state_def render_of_def)

lemma started_once_fields:
  "isAnalyzing started_once" "\<not> isProcessing started_once"
  "micPermission started_once = Some True" "currentEmotion started_once = Some ''neutral''"
  "timerIntervalRef started_once = Some 2" "nextHandle started_once = 3"
  "timers started_once =
     [(1, FirstCapture (render_of initial_state), 1000),
      (2, TickInterval (render_of initial_state), 1000)]"
  "videoRef started_once = Some (Some 1)" "canvasRef started_once = Some True"
  "lastApiCallTimeRef started_once = 0" "abortControllerRef started_once = None"
  "mediaStreamRef started_once = Some 1" "activeStreams started_once = [2, 1]"
  by (simp_all add: started_once_def startAnalysis_def startAnalysis_proceed_def
      requestMicPermission_def requestCameraPermission_def requestCameraPermission_settle_def
      requestCameraPermission_begin_def startAnalysis_release_def releaseStream_def
      resetVideo_def setTimer_def updateMetricsBasedOnEmotion_def falsyEmotion_def
      initial_state_def render_of_def Let_def)

lemma started_twice_fields:
  "isAnalyzing started_twice" "timerIntervalRef started_twice = Some 2"
  "timers started_twice =
     [(1, FirstCapture (render_of initial_state), 1000),
      (2, TickInterval (render_of initial_state), 1000),
      (3, FirstCapture (render_of started_once), 1100)]"
  "videoRef started_twice = Some (Some 3)" "canvasRef started_twice = Some True"
  "lastApiCallTimeRef started_twice = 0" "abortControllerRef started_twice = None"
  by (simp_all add: started_twice_def startAnalysis_mic_known render_of_fields
      started_once_fields startAnalysis_proceed_def requestCameraPermission_def
      requestCameraPermission_settle_def requestCameraPermission_begin_def
      startAnalysis_release_def releaseStream_def resetVideo_def setTimer_def falsyEmotion_def
      Let_def)

text \<open>
  The first-capture timeout of a start that was called while the session was analyzing
  carries a render that is analyzing. \<open>stopAnalysis\<close> does not clear that timeout; when
  it runs after the stop, its capture passes the guard and sets the token and the
  processing flag, in a session that is not analyzing.
\<close>

lemma stale_capture_sets_token_while_idle:
  "reachable (stopAnalysis started_twice)"
  "perform (FirstCaptureDue 3 (render_of started_once) 1100) (stopAnalysis started_twice) =
     Some (fst (processVideoFrame_begin (render_of started_once) 1100
             (clearTimer 3 (stopAnalysis started_twice))))"
  "\<not> isAnalyzing (fst (processVideoFrame_begin (render_of started_once) 1100
       (clearTimer 3 (stopAnalysis started_twice))))"
  "abortControllerRef (fst (processVideoFrame_begin (render_of started_once) 1100
       (clearTimer 3 (stopAnalysis started_twice)))) = Some False"
  "isProcessing (fst (processVideoFrame_begin (render_of started_once) 1100
       (clearTimer 3 (stopAnalysis started_twice))))"
proof -
  have "reachable started_once"
    unfolding started_once_def using reachable_initial by (rule reachable_startAnalysis)
  then have "reachable started_twice"
    unfolding started_twice_def by (rule reachable_startAnalysis)
  moreover have "perform Stop started_twice = Some (stopAnalysis started_twice)" by simp
  ultimately show "reachable (stopAnalysis started_twice)" by (rule reachable_step)
  show "perform (FirstCaptureDue 3 (render_of started_once) 1100) (stopAnalysis started_twice) =
     Some (fst (processVideoFrame_begin (render_of started_once) 1100
             (clearTimer 3 (stopAnalysis started_twice))))"
    by (simp add: timerDue_def stopAnalysis_eq started_twice_fields)
  show "\<not> isAnalyzing (fst (processVideoFrame_begin (render_of started_once) 1100
       (clearTimer 3 (stopAnalysis started_twice))))"
    by (simp add: begin_fields clearTimer_def stopAnalysis_eq)
  show "abortControllerRef (fst (processVideoFrame_begin (render_of started_once) 1100
       (clearTimer 3 (stopAnalysis started_twice)))) = Some False"
    "isProcessing (fst (processVideoFrame_begin (render_of started_once) 1100
       (clearTimer 3 (stopAnalysis started_twice))))"
    by (simp_all add: processVideoFrame_begin_def render_of_fields started_once_fields
        clearTimer_def stopAnalysis_eq started_twice_fields Let_def)
qed

end
